theory Spec2Isabelle
  imports Complex_Main "HOL-Library.Word" "HOL-Library.Monad_Syntax" "HOL-Library.Multiset"
begin

unbundle bit_operations_syntax

section \<open>How a call ends\<close>

text \<open>
  A call returns a value or throws. \<open>Unmodelled\<close> marks the one path the model does not
  follow: the call returns normally, but it has replaced the prototype of a table, and the
  tables of this model have no prototype of their own.
\<close>

datatype js_error = TypeError | ReferenceError | RangeError

datatype 'a completion = Returns 'a | Throws js_error | Unmodelled


section \<open>HexUtils: the cells within a radius\<close>

text \<open>
  \<^verbatim>\<open>getHexesInRadius(centerQ, centerR, radius)\<close> of \<^verbatim>\<open>public/js/HexUtils.js\<close>. The
  centre and the radius are integers, held as every JavaScript number is in a double. Every
  integer of magnitude up to \<open>2^53\<close> is a double; a larger one is a double when it fits in
  53 significant bits. The sum of two doubles is the exact sum rounded to the nearest double,
  a tie going to the even significand: \<open>to_double\<close> rounds an integer so.
\<close>

function bit_length :: "int \<Rightarrow> nat" where
  "bit_length m = (if m \<le> 0 then 0 else 1 + bit_length (m div 2))"
  by pat_completeness auto
termination
  by (relation "measure (\<lambda>m. nat m)") auto

definition to_double :: "int \<Rightarrow> int" where
  "to_double n =
     (let m = \<bar>n\<bar>;
          len = bit_length m
      in if len \<le> 53 then n
         else (let ulp = 2 ^ (len - 53);
                   significand = m div ulp;
                   rest = m mod ulp;
                   rounded = (if 2 * rest < ulp then significand
                              else if ulp < 2 * rest then significand + 1
                              else if even significand then significand
                              else significand + 1)
               in sgn n * (rounded * ulp)))"

text \<open>
  A cell \<^verbatim>\<open>{q, r}\<close> is the pair \<open>(q, r)\<close>. \<^verbatim>\<open>results.push\<close> appends at the end, and throws a
  \<^verbatim>\<open>RangeError\<close> when the array already has the \<open>2^32 - 1\<close> elements an array can hold.
\<close>

type_synonym axial = "int \<times> int"

definition max_array_length :: nat where
  "max_array_length = 4294967295"

text \<open>
  The two \<^verbatim>\<open>for\<close> loops are the two recursive functions below. The coordinates of a cell,
  \<^verbatim>\<open>centerQ + q\<close> and \<^verbatim>\<open>centerR + r\<close>, are rounded sums. The counters \<open>q\<close> and \<open>r\<close> and
  the bounds \<open>r1\<close> and \<open>r2\<close> are computed exactly: with a radius below \<open>2^32\<close> they stay
  below \<open>2^33\<close> in magnitude, where doubles are exact; with a larger radius the first row,
  where \<open>r\<close> counts from \<open>0\<close> up to the radius, fills the array while \<open>r\<close> is still below
  \<open>2^32\<close>, and the call throws. A sum beyond the largest double, which is an infinity and
  not the integer \<open>to_double\<close> gives, takes an offset of at least \<open>2^970\<close>, so it is met only
  in a call that throws.
\<close>

function r_loop :: "int \<Rightarrow> int \<Rightarrow> int \<Rightarrow> int \<Rightarrow> int \<Rightarrow> axial list \<Rightarrow> axial list completion" where
  "r_loop centerQ centerR q r r2 results =
     (if r \<le> r2
      then (if length results < max_array_length
            then r_loop centerQ centerR q (r + 1) r2
                   (results @ [(to_double (centerQ + q), to_double (centerR + r))])
            else Throws RangeError)
      else Returns results)"
  by pat_completeness auto
termination
  by (relation "measure (\<lambda>(centerQ, centerR, q, r, r2, results). nat (r2 + 1 - r))") auto

function q_loop :: "int \<Rightarrow> int \<Rightarrow> int \<Rightarrow> int \<Rightarrow> axial list \<Rightarrow> axial list completion" where
  "q_loop centerQ centerR radius q results =
     (if q \<le> radius
      then (let r1 = max (- radius) (- q - radius);
                r2 = min radius (- q + radius)
            in case r_loop centerQ centerR q r1 r2 results of
                 Returns results' \<Rightarrow> q_loop centerQ centerR radius (q + 1) results'
               | failure \<Rightarrow> failure)
      else Returns results)"
  by pat_completeness auto
termination
  by (relation "measure (\<lambda>(centerQ, centerR, radius, q, results). nat (radius + 1 - q))") auto

definition getHexesInRadius :: "int \<Rightarrow> int \<Rightarrow> int \<Rightarrow> axial list completion" where
  "getHexesInRadius centerQ centerR radius = q_loop centerQ centerR radius (- radius) []"

text \<open>
  The region as the specification words it: for each \<open>q\<close> offset in \<open>[-radius, radius]\<close> the
  \<open>r\<close> offsets \<open>[max(-radius, -q-radius), min(radius, -q+radius)]\<close>, in this order, on the
  integers.
\<close>

definition hex_row :: "int \<Rightarrow> int \<Rightarrow> int \<Rightarrow> int \<Rightarrow> axial list" where
  "hex_row centerQ centerR radius q =
     map (\<lambda>r. (centerQ + q, centerR + r)) [max (- radius) (- q - radius)..min radius (- q + radius)]"

definition cellsWithinRadius :: "int \<Rightarrow> int \<Rightarrow> int \<Rightarrow> axial list" where
  "cellsWithinRadius centerQ centerR radius =
     concat (map (hex_row centerQ centerR radius) [- radius..radius])"

text \<open>The row of one \<open>q\<close> as the inner loop builds it, used in the proofs.\<close>

definition rounded_row :: "int \<Rightarrow> int \<Rightarrow> int \<Rightarrow> int \<Rightarrow> axial list" where
  "rounded_row centerQ centerR radius q =
     map (\<lambda>r. (to_double (centerQ + q), to_double (centerR + r)))
       [max (- radius) (- q - radius)..min radius (- q + radius)]"


text \<open>
  \<^verbatim>\<open>getHexId(q, r)\<close>, the template \<^verbatim>\<open>`${q},${r}`\<close>: an integer prints in decimal, with a minus
  sign when negative.
\<close>

function decimal :: "nat \<Rightarrow> string" where
  "decimal n = (if n < 10 then [char_of (48 + n)] else decimal (n div 10) @ [char_of (48 + n mod 10)])"
  by pat_completeness auto
termination
  by (relation "measure (\<lambda>n. n)") auto

definition Number_toString :: "int \<Rightarrow> string" where
  "Number_toString n = (if n < 0 then ''-'' @ decimal (nat (- n)) else decimal (nat n))"

definition getHexId :: "int \<Rightarrow> int \<Rightarrow> string" where
  "getHexId q r = Number_toString q @ '','' @ Number_toString r"


section \<open>NoiseGenerator: seeded permutation table and fractal noise\<close>

text \<open>
  \<^verbatim>\<open>public/js/NoiseGenerator.js\<close>. The numbers of \<^verbatim>\<open>noise\<close> and \<^verbatim>\<open>fractalNoise\<close> are
  values of \<open>jsnum\<close>: a finite number, \<^verbatim>\<open>NaN\<close> or an infinity. An operation on finite
  numbers whose exact result reaches \<open>2^1024 - 2^970\<close> in magnitude, the least magnitude
  that rounds beyond the largest double, gives an infinity. A smaller result is kept exact:
  its rounding to the nearest double is not modelled, and neither is the sign of zero. The
  seed and the state of \<^verbatim>\<open>mulberry32\<close> are finite numbers, added exactly in the same way.
\<close>

datatype jsnum = Num real | NaN | PosInfinity | NegInfinity

definition overflow_bound :: real where
  "overflow_bound = 2 ^ 1024 - 2 ^ 970"

definition js_number :: "real \<Rightarrow> jsnum" where
  "js_number r =
     (if overflow_bound \<le> r then PosInfinity
      else if r \<le> - overflow_bound then NegInfinity
      else Num r)"

text \<open>
  The operators \<^verbatim>\<open>-a\<close>, \<^verbatim>\<open>a + b\<close>, \<^verbatim>\<open>a - b\<close>, \<^verbatim>\<open>a * b\<close> and \<^verbatim>\<open>a / b\<close>: \<^verbatim>\<open>NaN\<close> in an operand
  gives \<^verbatim>\<open>NaN\<close>, and so do the difference of two equal infinities, the product of zero
  and an infinity, the quotient of two infinities and \<open>0 / 0\<close>. The divisors of the source,
  \<open>maxValue\<close> and \<open>2\<close>, are never \<open>-0\<close>.
\<close>

fun js_neg :: "jsnum \<Rightarrow> jsnum" where
  "js_neg (Num a) = Num (- a)"
| "js_neg NaN = NaN"
| "js_neg PosInfinity = NegInfinity"
| "js_neg NegInfinity = PosInfinity"

fun js_add :: "jsnum \<Rightarrow> jsnum \<Rightarrow> jsnum" where
  "js_add (Num a) (Num b) = js_number (a + b)"
| "js_add (Num a) NaN = NaN"
| "js_add (Num a) PosInfinity = PosInfinity"
| "js_add (Num a) NegInfinity = NegInfinity"
| "js_add NaN b = NaN"
| "js_add PosInfinity (Num b) = PosInfinity"
| "js_add PosInfinity NaN = NaN"
| "js_add PosInfinity PosInfinity = PosInfinity"
| "js_add PosInfinity NegInfinity = NaN"
| "js_add NegInfinity (Num b) = NegInfinity"
| "js_add NegInfinity NaN = NaN"
| "js_add NegInfinity PosInfinity = NaN"
| "js_add NegInfinity NegInfinity = NegInfinity"

definition js_sub :: "jsnum \<Rightarrow> jsnum \<Rightarrow> jsnum" where
  "js_sub a b = js_add a (js_neg b)"

text \<open>The product of an infinity and a finite number.\<close>

definition infinity_times :: "jsnum \<Rightarrow> real \<Rightarrow> jsnum" where
  "infinity_times a b = (if b = 0 then NaN else if 0 < b then a else js_neg a)"

fun js_mul :: "jsnum \<Rightarrow> jsnum \<Rightarrow> jsnum" where
  "js_mul (Num a) (Num b) = js_number (a * b)"
| "js_mul (Num a) NaN = NaN"
| "js_mul (Num a) PosInfinity = infinity_times PosInfinity a"
| "js_mul (Num a) NegInfinity = infinity_times NegInfinity a"
| "js_mul NaN b = NaN"
| "js_mul PosInfinity (Num b) = infinity_times PosInfinity b"
| "js_mul PosInfinity NaN = NaN"
| "js_mul PosInfinity PosInfinity = PosInfinity"
| "js_mul PosInfinity NegInfinity = NegInfinity"
| "js_mul NegInfinity (Num b) = infinity_times NegInfinity b"
| "js_mul NegInfinity NaN = NaN"
| "js_mul NegInfinity PosInfinity = NegInfinity"
| "js_mul NegInfinity NegInfinity = PosInfinity"

fun js_div :: "jsnum \<Rightarrow> jsnum \<Rightarrow> jsnum" where
  "js_div (Num a) (Num b) =
     (if b \<noteq> 0 then js_number (a / b)
      else if a = 0 then NaN
      else if 0 < a then PosInfinity else NegInfinity)"
| "js_div (Num a) NaN = NaN"
| "js_div (Num a) PosInfinity = Num 0"
| "js_div (Num a) NegInfinity = Num 0"
| "js_div NaN b = NaN"
| "js_div PosInfinity (Num b) = (if 0 \<le> b then PosInfinity else NegInfinity)"
| "js_div PosInfinity NaN = NaN"
| "js_div PosInfinity PosInfinity = NaN"
| "js_div PosInfinity NegInfinity = NaN"
| "js_div NegInfinity (Num b) = (if 0 \<le> b then NegInfinity else PosInfinity)"
| "js_div NegInfinity NaN = NaN"
| "js_div NegInfinity PosInfinity = NaN"
| "js_div NegInfinity NegInfinity = NaN"

text \<open>\<^verbatim>\<open>Math.floor\<close> leaves \<^verbatim>\<open>NaN\<close> and the infinities as they are.\<close>

fun js_floor :: "jsnum \<Rightarrow> jsnum" where
  "js_floor (Num a) = Num (of_int \<lfloor>a\<rfloor>)"
| "js_floor NaN = NaN"
| "js_floor PosInfinity = PosInfinity"
| "js_floor NegInfinity = NegInfinity"

text \<open>
  \<^verbatim>\<open>ToInt32\<close>, the conversion every bitwise operator applies to its operands: truncate towards
  zero, then wrap modulo \<open>2^32\<close>; \<^verbatim>\<open>NaN\<close> and the infinities convert to \<open>0\<close>. \<^verbatim>\<open>>>>\<close> is
  \<open>drop_bit\<close> on the same 32 bits, and \<^verbatim>\<open>Math.imul\<close> is the multiplication of 32-bit words.
\<close>

definition ToInt32 :: "real \<Rightarrow> 32 word" where
  "ToInt32 x = word_of_int (if 0 \<le> x then \<lfloor>x\<rfloor> else \<lceil>x\<rceil>)"

fun js_ToInt32 :: "jsnum \<Rightarrow> 32 word" where
  "js_ToInt32 (Num a) = ToInt32 a"
| "js_ToInt32 NaN = 0"
| "js_ToInt32 PosInfinity = 0"
| "js_ToInt32 NegInfinity = 0"

definition imul :: "32 word \<Rightarrow> 32 word \<Rightarrow> 32 word" where
  "imul a b = a * b"

text \<open>
  One call of the function that \<^verbatim>\<open>mulberry32(a)\<close> returns. The captured variable \<open>a\<close> is
  the state: the result is the number returned and the new value of \<open>a\<close>. After the first line \<open>t\<close> is
  a 32-bit integer; \<^verbatim>\<open>t + Math.imul(..)\<close> is exact on numbers and wrapped by the \<^verbatim>\<open>^=\<close>, which
  is the addition of words.
\<close>

definition mulberry32 :: "real \<Rightarrow> real \<times> real" where
  "mulberry32 a =
     (let a' = a + 0x6D2B79F5;
          t0 = ToInt32 a';
          t1 = imul (t0 XOR drop_bit 15 t0) (t0 OR 1);
          t2 = t1 XOR (t1 + imul (t1 XOR drop_bit 7 t1) (t1 OR 61))
      in (real (unat (t2 XOR drop_bit 14 t2)) / 4294967296, a'))"

text \<open>
  A JavaScript array of numbers: \<open>None\<close> is a hole, which reads as \<^verbatim>\<open>undefined\<close> like an index
  past the end does; a write past the end extends the array.
\<close>

type_synonym jsarray = "nat option list"

definition js_read :: "jsarray \<Rightarrow> nat \<Rightarrow> nat option" where
  "js_read p k = (if k < length p then p ! k else None)"

definition js_write :: "jsarray \<Rightarrow> nat \<Rightarrow> nat option \<Rightarrow> jsarray" where
  "js_write p k v =
     (if k < length p then p[k := v] else p @ replicate (k - length p) None @ [v])"

text \<open>The three loops of \<^verbatim>\<open>generatePermutation\<close>.\<close>

function fill_loop :: "nat \<Rightarrow> jsarray \<Rightarrow> jsarray" where
  "fill_loop i p = (if i < 256 then fill_loop (i + 1) (js_write p i (Some i)) else p)"
  by pat_completeness auto
termination
  by (relation "measure (\<lambda>(i, p). 256 - i)") auto

text \<open>
  \<^verbatim>\<open>[p[i], p[j]] = [p[j], p[i]]\<close> reads both entries first and then writes \<open>p[i]\<close>, then
  \<open>p[j]\<close>.
\<close>

function shuffle_loop :: "nat \<Rightarrow> real \<Rightarrow> jsarray \<Rightarrow> jsarray" where
  "shuffle_loop i a p =
     (if 0 < i
      then (let (rnd, a') = mulberry32 a;
                j = nat \<lfloor>rnd * real (i + 1)\<rfloor>;
                p_j = js_read p j;
                p_i = js_read p i
            in shuffle_loop (i - 1) a' (js_write (js_write p i p_j) j p_i))
      else p)"
  by pat_completeness auto
termination
  by (relation "measure (\<lambda>(i, a, p). i)") auto

function copy_loop :: "nat \<Rightarrow> jsarray \<Rightarrow> jsarray" where
  "copy_loop i p = (if i < 256 then copy_loop (i + 1) (js_write p (i + 256) (js_read p i)) else p)"
  by pat_completeness auto
termination
  by (relation "measure (\<lambda>(i, p). 256 - i)") auto

definition generatePermutation :: "real \<Rightarrow> jsarray" where
  "generatePermutation sd =
     (let p = replicate 512 None;
          p = fill_loop 0 p;
          p = shuffle_loop 255 sd p
      in copy_loop 0 p)"

record NoiseGenerator =
  seed :: real
  permutation :: jsarray

text \<open>
  The constructor \<^verbatim>\<open>constructor(seed = Math.random())\<close>: the second argument is the number
  \<^verbatim>\<open>Math.random()\<close> returns at the time of the call, used only when no seed is given.
\<close>

definition new_NoiseGenerator :: "real option \<Rightarrow> real \<Rightarrow> NoiseGenerator" where
  "new_NoiseGenerator seed_arg math_random =
     (let sd = (case seed_arg of Some v \<Rightarrow> v | None \<Rightarrow> math_random)
      in \<lparr>seed = sd, permutation = generatePermutation sd\<rparr>)"

definition gradient :: "nat \<Rightarrow> jsnum \<Rightarrow> jsnum \<Rightarrow> jsnum" where
  "gradient hash x y =
     (let h = hash AND 7;
          u = (if h < 4 then x else y);
          v = (if h < 4 then y else x)
      in js_add (if h AND 1 \<noteq> 0 then js_neg u else u) (if h AND 2 \<noteq> 0 then js_neg v else v))"

definition lerp :: "jsnum \<Rightarrow> jsnum \<Rightarrow> jsnum \<Rightarrow> jsnum" where
  "lerp a b t = js_add a (js_mul t (js_sub b a))"

definition fade :: "jsnum \<Rightarrow> jsnum" where
  "fade t =
     js_mul (js_mul (js_mul t t) t)
       (js_add (js_mul t (js_sub (js_mul t (Num 6)) (Num 15))) (Num 10))"

text \<open>
  \<^verbatim>\<open>noise(x, y)\<close>. \<^verbatim>\<open>Math.floor(x) & 255\<close> is \<^verbatim>\<open>ToInt32\<close> of the floor, masked. The result is
  \<open>None\<close> when one of the ten table reads finds \<^verbatim>\<open>undefined\<close>; the model does not follow the
  source further then.
\<close>

definition noise :: "NoiseGenerator \<Rightarrow> jsnum \<Rightarrow> jsnum \<Rightarrow> jsnum option" where
  "noise g x y =
     (let X = unat (js_ToInt32 (js_floor x) AND 255);
          Y = unat (js_ToInt32 (js_floor y) AND 255);
          xf = js_sub x (js_floor x);
          yf = js_sub y (js_floor y);
          u = fade xf;
          v = fade yf;
          p = permutation g
      in do {
        pX \<leftarrow> js_read p X;
        pX1 \<leftarrow> js_read p (X + 1);
        let A = pX + Y;
        let B = pX1 + Y;
        aa \<leftarrow> js_read p A;
        ab \<leftarrow> js_read p (A + 1);
        ba \<leftarrow> js_read p B;
        bb \<leftarrow> js_read p (B + 1);
        paa \<leftarrow> js_read p aa;
        pba \<leftarrow> js_read p ba;
        pab \<leftarrow> js_read p ab;
        pbb \<leftarrow> js_read p bb;
        let g1 = gradient paa xf yf;
        let g2 = gradient pba (js_sub xf (Num 1)) yf;
        let g3 = gradient pab xf (js_sub yf (Num 1));
        let g4 = gradient pbb (js_sub xf (Num 1)) (js_sub yf (Num 1));
        let x1 = lerp g1 g2 u;
        let x2 = lerp g3 g4 u;
        Some (lerp x1 x2 v)
      })"

text \<open>
  The loop of \<^verbatim>\<open>fractalNoise(x, y, octaves = 4, persistence = 0.5)\<close>, with its five variables,
  and the function. The octave count is an integer; nothing in the source checks it.
\<close>

function octave_loop ::
  "NoiseGenerator \<Rightarrow> jsnum \<Rightarrow> jsnum \<Rightarrow> int \<Rightarrow> jsnum \<Rightarrow> int \<Rightarrow> jsnum \<Rightarrow> jsnum \<Rightarrow> jsnum \<Rightarrow> jsnum
     \<Rightarrow> (jsnum \<times> jsnum) option" where
  "octave_loop g x y octaves persistence i total' frequency amplitude maxValue =
     (if i < octaves
      then (case noise g (js_mul x frequency) (js_mul y frequency) of
              None \<Rightarrow> None
            | Some n \<Rightarrow>
                octave_loop g x y octaves persistence (i + 1)
                  (js_add total' (js_mul n amplitude)) (js_mul frequency (Num 2))
                  (js_mul amplitude persistence) (js_add maxValue amplitude))
      else Some (total', maxValue))"
  by pat_completeness auto
termination
  by (relation "measure (\<lambda>(g, x, y, octaves, persistence, i, total', frequency, amplitude, maxValue).
                  nat (octaves - i))") auto

definition fractalNoise :: "NoiseGenerator \<Rightarrow> jsnum \<Rightarrow> jsnum \<Rightarrow> int \<Rightarrow> jsnum \<Rightarrow> jsnum option" where
  "fractalNoise g x y octaves persistence =
     (case octave_loop g x y octaves persistence 0 (Num 0) (Num 1) (Num 1) (Num 0) of
        None \<Rightarrow> None
      | Some (total', maxValue) \<Rightarrow> Some (js_div (js_add (js_div total' maxValue) (Num 1)) (Num 2)))"


text \<open>
  Two predicates on the table, used in the proofs: what holds between the iterations of the
  shuffle, and what \<^verbatim>\<open>noise\<close> needs of the finished table.
\<close>

definition shuffled :: "jsarray \<Rightarrow> bool" where
  "shuffled p \<longleftrightarrow> length p = 512 \<and> mset (take 256 p) = mset (map Some [0..<256])
      \<and> drop 256 p = replicate 256 None"

definition table_ok :: "jsarray \<Rightarrow> bool" where
  "table_ok p \<longleftrightarrow> length p = 512 \<and> (\<forall>k<512. \<exists>v<256. p ! k = Some v)"


section \<open>JavaScript values and objects\<close>

text \<open>
  The values a cell or a delta carries, as they arrive in a JSON message. A cell state or a
  delta, an object with named fields, is the map of its own properties.
\<close>

datatype jsval = JNull | JBool bool | JNum real | JStr string | JObj "(string \<times> jsval) list"

type_synonym jsobject = "string \<rightharpoonup> jsval"

text \<open>Truthiness, for the conditions \<^verbatim>\<open>if (state.color)\<close> and \<^verbatim>\<open>a || b\<close>.\<close>

fun truthy :: "jsval \<Rightarrow> bool" where
  "truthy JNull = False"
| "truthy (JBool b) = b"
| "truthy (JNum x) = (x \<noteq> 0)"
| "truthy (JStr s) = (s \<noteq> [])"
| "truthy (JObj props) = True"

text \<open>
  The tables of the program (\<^verbatim>\<open>this.rooms\<close>, \<^verbatim>\<open>this.userRooms\<close>, \<^verbatim>\<open>hexState\<close>,
  \<^verbatim>\<open>this.hexMeshes\<close>) are plain objects created by \<^verbatim>\<open>{}\<close> and read by \<^verbatim>\<open>table[key]\<close>,
  where the key is any string. Such a read finds the table's own property when there
  is one, and otherwise what every plain object inherits from \<^verbatim>\<open>Object.prototype\<close>: under
  the twelve names below it finds a function (under \<^verbatim>\<open>__proto__\<close> the prototype object),
  which is truthy and has none of the fields of a room, a list or a mesh. Under any other
  name it finds \<^verbatim>\<open>undefined\<close>.
\<close>

definition Object_prototype_keys :: "string list" where
  "Object_prototype_keys =
     [''constructor'', ''__defineGetter__'', ''__defineSetter__'', ''hasOwnProperty'',
      ''__lookupGetter__'', ''__lookupSetter__'', ''isPrototypeOf'', ''propertyIsEnumerable'',
      ''toString'', ''valueOf'', ''__proto__'', ''toLocaleString'']"

datatype 'a property = Undefined | Own 'a | Inherited

definition js_get :: "(string \<rightharpoonup> 'a) \<Rightarrow> string \<Rightarrow> 'a property" where
  "js_get obj key =
     (case obj key of
        Some v \<Rightarrow> Own v
      | None \<Rightarrow> if key \<in> set Object_prototype_keys then Inherited else Undefined)"



section \<open>RoomManager: the server's store\<close>

text \<open>
  \<^verbatim>\<open>server/RoomManager.js\<close>. The store is passed in and returned. \<^verbatim>\<open>Math.random()\<close> and
  \<^verbatim>\<open>Date.now()\<close> are arguments: the number each returns at the time of the call.
\<close>

text \<open>
  \<^verbatim>\<open>Math.random().toString(36)\<close>: a number of \<open>[0, 1)\<close> printed in base 36, \<^verbatim>\<open>"0"\<close> for zero
  and otherwise \<^verbatim>\<open>"0."\<close> followed by the digits of the fraction, which stop when nothing is
  left. Only the first six digits are read by the caller; the model prints at most twelve.
\<close>

definition base36_digits :: string where
  "base36_digits = ''0123456789abcdefghijklmnopqrstuvwxyz''"

definition digit36 :: "nat \<Rightarrow> char" where
  "digit36 d = base36_digits ! d"

fun fraction36 :: "nat \<Rightarrow> real \<Rightarrow> string" where
  "fraction36 0 f = []"
| "fraction36 (Suc n) f =
     (if f = 0 then []
      else (let d = \<lfloor>f * 36\<rfloor> in digit36 (nat d) # fraction36 n (f * 36 - of_int d)))"

definition toString36 :: "real \<Rightarrow> string" where
  "toString36 x = (if x = 0 then ''0'' else ''0.'' @ fraction36 12 x)"

definition substring :: "string \<Rightarrow> nat \<Rightarrow> nat \<Rightarrow> string" where
  "substring str start end' = take (end' - start) (drop start str)"

definition toUpperCase_char :: "char \<Rightarrow> char" where
  "toUpperCase_char c =
     (let n = (of_char c :: nat) in if 97 \<le> n \<and> n \<le> 122 then char_of (n - 32) else c)"

definition toUpperCase :: "string \<Rightarrow> string" where
  "toUpperCase str = map toUpperCase_char str"

text \<open>The characters of a room code as the specification has them.\<close>

definition room_code_alphabet :: string where
  "room_code_alphabet = ''0123456789ABCDEFGHIJKLMNOPQRSTUVWXYZ''"

definition generateRoomCode :: "real \<Rightarrow> string" where
  "generateRoomCode math_random = toUpperCase (substring (toString36 math_random) 2 8)"

record Room =
  host :: string
  users :: "string list"
  hexState :: "string \<rightharpoonup> jsobject"
  createdAt :: nat

record RoomManager =
  rooms :: "string \<rightharpoonup> Room"
  userRooms :: "string \<rightharpoonup> string list"

definition new_RoomManager :: RoomManager where
  "new_RoomManager = \<lparr>rooms = Map.empty, userRooms = Map.empty\<rparr>"

text \<open>
  The lines shared by \<^verbatim>\<open>createRoom\<close> and \<^verbatim>\<open>joinRoom\<close>:
  \<^verbatim>\<open>if (!this.userRooms[userId]) this.userRooms[userId] = []; this.userRooms[userId].push(roomCode)\<close>.
  What is inherited is truthy and has no \<^verbatim>\<open>push\<close>.
\<close>

definition associate :: "string \<Rightarrow> string \<Rightarrow> RoomManager \<Rightarrow> js_error option \<times> RoomManager" where
  "associate userId roomCode s =
     (case js_get (userRooms s) userId of
        Undefined \<Rightarrow> (None, s\<lparr>userRooms := (userRooms s)(userId \<mapsto> [roomCode])\<rparr>)
      | Own codes \<Rightarrow> (None, s\<lparr>userRooms := (userRooms s)(userId \<mapsto> codes @ [roomCode])\<rparr>)
      | Inherited \<Rightarrow> (Some TypeError, s))"

definition createRoom ::
  "real \<Rightarrow> nat \<Rightarrow> string \<Rightarrow> RoomManager \<Rightarrow> string completion \<times> RoomManager" where
  "createRoom math_random now userId s =
     (let roomCode = generateRoomCode math_random;
          s1 = s\<lparr>rooms := (rooms s)(roomCode \<mapsto>
                 \<lparr>host = userId, users = [userId], hexState = Map.empty, createdAt = now\<rparr>)\<rparr>
      in case associate userId roomCode s1 of
           (Some e, s2) \<Rightarrow> (Throws e, s2)
         | (None, s2) \<Rightarrow> (Returns roomCode, s2))"

text \<open>The two shapes of the object \<^verbatim>\<open>joinRoom\<close> returns.\<close>

datatype join_result =
  Success "string \<rightharpoonup> jsobject"
| Failure string

definition joinRoom ::
  "string \<Rightarrow> string \<Rightarrow> RoomManager \<Rightarrow> join_result completion \<times> RoomManager" where
  "joinRoom roomCode userId s =
     (case js_get (rooms s) roomCode of
        Undefined \<Rightarrow> (Returns (Failure ''Room not found''), s)
      | Inherited \<Rightarrow> (Throws TypeError, s)
      | Own room \<Rightarrow>
          (let s1 = s\<lparr>rooms := (rooms s)(roomCode \<mapsto> room\<lparr>users := users room @ [userId]\<rparr>)\<rparr>
           in case associate userId roomCode s1 of
                (Some e, s2) \<Rightarrow> (Throws e, s2)
              | (None, s2) \<Rightarrow> (Returns (Success (hexState room)), s2)))"

text \<open>
  \<^verbatim>\<open>updateHexState(roomCode, hexId, action)\<close>. The spread of \<^verbatim>\<open>hexState[hexId]\<close> copies the own
  properties of the stored cell, and nothing when the cell is missing or the name is
  inherited. The assignment stores the new object under \<open>hexId\<close>, except under \<^verbatim>\<open>__proto__\<close>,
  where it replaces the prototype of \<^verbatim>\<open>hexState\<close> and stores nothing.
\<close>

definition spread :: "jsobject property \<Rightarrow> jsobject" where
  "spread v = (case v of Own obj \<Rightarrow> obj | Inherited \<Rightarrow> Map.empty | Undefined \<Rightarrow> Map.empty)"

definition updateHexState ::
  "string \<Rightarrow> string \<Rightarrow> jsobject \<Rightarrow> nat \<Rightarrow> RoomManager \<Rightarrow> bool completion \<times> RoomManager" where
  "updateHexState roomCode hexId action now s =
     (case js_get (rooms s) roomCode of
        Undefined \<Rightarrow> (Returns False, s)
      | Inherited \<Rightarrow> (Throws TypeError, s)
      | Own room \<Rightarrow>
          (let cell = (spread (js_get (hexState room) hexId) ++ action)
                        (''lastUpdated'' \<mapsto> JNum (real now))
           in if hexId = ''__proto__'' then (Unmodelled, s)
              else (Returns True,
                    s\<lparr>rooms := (rooms s)(roomCode \<mapsto>
                        room\<lparr>hexState := (hexState room)(hexId \<mapsto> cell)\<rparr>)\<rparr>)))"

text \<open>
  \<^verbatim>\<open>removeUserFromRooms(userId)\<close>: the \<^verbatim>\<open>for .. of\<close> loop over the user's room codes, with
  \<open>roomsLeft\<close> and the store as its variables, then the function.
\<close>

fun leave_loop ::
  "string \<Rightarrow> string list \<Rightarrow> string list \<Rightarrow> RoomManager \<Rightarrow> string list completion \<times> RoomManager"
  where
  "leave_loop userId [] roomsLeft s = (Returns roomsLeft, s)"
| "leave_loop userId (roomCode # rest) roomsLeft s =
     (case js_get (rooms s) roomCode of
        Undefined \<Rightarrow> leave_loop userId rest roomsLeft s
      | Inherited \<Rightarrow> (Throws TypeError, s)
      | Own room \<Rightarrow>
          (let remaining = filter (\<lambda>id. id \<noteq> userId) (users room);
               s1 = s\<lparr>rooms := (rooms s)(roomCode \<mapsto> room\<lparr>users := remaining\<rparr>)\<rparr>;
               s2 = (if length remaining = 0 then s1\<lparr>rooms := (rooms s1)(roomCode := None)\<rparr> else s1)
           in leave_loop userId rest (roomsLeft @ [roomCode]) s2))"

definition removeUserFromRooms ::
  "string \<Rightarrow> RoomManager \<Rightarrow> string list completion \<times> RoomManager" where
  "removeUserFromRooms userId s =
     (case js_get (userRooms s) userId of
        Undefined \<Rightarrow> (Returns [], s)
      | Inherited \<Rightarrow> (Throws TypeError, s)
      | Own codes \<Rightarrow>
          (case leave_loop userId codes [] s of
             (Returns roomsLeft, s1) \<Rightarrow>
               (Returns roomsLeft, s1\<lparr>userRooms := (userRooms s1)(userId := None)\<rparr>)
           | (Throws e, s1) \<Rightarrow> (Throws e, s1)
           | (Unmodelled, s1) \<Rightarrow> (Unmodelled, s1)))"

text \<open>\<^verbatim>\<open>getRoomState(roomCode)\<close> narrowed to one cell: what the store holds for it.\<close>

definition stored_cell :: "RoomManager \<Rightarrow> string \<Rightarrow> string \<Rightarrow> jsobject option" where
  "stored_cell s roomCode hexId =
     (case rooms s roomCode of None \<Rightarrow> None | Some room \<Rightarrow> hexState room hexId)"

definition stored_field :: "RoomManager \<Rightarrow> string \<Rightarrow> string \<Rightarrow> string \<Rightarrow> jsval option" where
  "stored_field s roomCode hexId key =
     (case stored_cell s roomCode hexId of None \<Rightarrow> None | Some cell \<Rightarrow> cell key)"


text \<open>
  The consistency of the two tables: the members of a room, the rooms a user's index entry
  lists, and the stores reached from the empty one by calls that return normally, with room
  codes that are not in use when they are minted. \<open>leave_room\<close> is what
  \<^verbatim>\<open>removeUserFromRooms\<close> does to one entry of the room table.
\<close>

definition members :: "RoomManager \<Rightarrow> string \<Rightarrow> string set" where
  "members s roomCode = (case rooms s roomCode of None \<Rightarrow> {} | Some room \<Rightarrow> set (users room))"

definition memberships :: "RoomManager \<Rightarrow> string \<Rightarrow> string set" where
  "memberships s userId = (case userRooms s userId of None \<Rightarrow> {} | Some codes \<Rightarrow> set codes)"

definition consistent :: "RoomManager \<Rightarrow> bool" where
  "consistent s \<longleftrightarrow>
     (\<forall>roomCode room. rooms s roomCode = Some room \<longrightarrow> users room \<noteq> [])
   \<and> (\<forall>userId roomCode. userId \<in> members s roomCode \<longleftrightarrow> roomCode \<in> memberships s userId)"

definition leave_room :: "string \<Rightarrow> Room option \<Rightarrow> Room option" where
  "leave_room userId entry =
     (case entry of
        None \<Rightarrow> None
      | Some room \<Rightarrow>
          if filter (\<lambda>id. id \<noteq> userId) (users room) = [] then None
          else Some (room\<lparr>users := filter (\<lambda>id. id \<noteq> userId) (users room)\<rparr>))"

inductive collision_free :: "RoomManager \<Rightarrow> bool" where
  init: "collision_free new_RoomManager"
| create: "collision_free s \<Longrightarrow> rooms s (generateRoomCode math_random) = None \<Longrightarrow>
           createRoom math_random now userId s = (Returns roomCode, s') \<Longrightarrow> collision_free s'"
| join: "collision_free s \<Longrightarrow> joinRoom roomCode userId s = (Returns result, s') \<Longrightarrow>
         collision_free s'"
| update: "collision_free s \<Longrightarrow> updateHexState roomCode hexId action now s = (Returns ok, s') \<Longrightarrow>
           collision_free s'"
| leave: "collision_free s \<Longrightarrow> removeUserFromRooms userId s = (Returns roomsLeft, s') \<Longrightarrow>
          collision_free s'"


section \<open>HexGrid: the client's mirror\<close>

text \<open>
  \<^verbatim>\<open>updateHexState(hexId, state)\<close> of the client's \<^verbatim>\<open>HexGrid\<close> class, the version that
  imports \<^verbatim>\<open>../utils/NoiseGenerator.js\<close>. Of a mesh the model keeps what the function reads
  and writes: \<^verbatim>\<open>userData.customColor\<close>, \<^verbatim>\<open>userData.height\<close> and the colour of the top
  material. The calls into the rendering library and into \<^verbatim>\<open>VoxelModelManager\<close> are taken
  to return normally, and leave no trace in the model.
\<close>

record HexMesh =
  customColor :: "jsval option"
  height :: "jsval option"
  topColor :: jsval

record HexGrid =
  hexMeshes :: "string \<rightharpoonup> HexMesh"
  voxelModels :: "string \<rightharpoonup> jsobject"
  voxelModelManager :: bool

text \<open>\<^verbatim>\<open>v.name\<close> on a value, and \<^verbatim>\<open>a || b\<close> on a property that may be missing.\<close>

definition field :: "jsval \<Rightarrow> string \<Rightarrow> jsval option" where
  "field v name = (case v of JObj props \<Rightarrow> map_of (rev props) name | _ \<Rightarrow> None)"

definition or_default :: "jsval option \<Rightarrow> jsval \<Rightarrow> jsval" where
  "or_default a b = (case a of Some v \<Rightarrow> if truthy v then v else b | None \<Rightarrow> b)"

definition is_truthy :: "jsval option \<Rightarrow> bool" where
  "is_truthy a = (case a of Some v \<Rightarrow> truthy v | None \<Rightarrow> False)"

text \<open>\<^verbatim>\<open>a !== undefined\<close> on a property that may be missing.\<close>

definition is_defined :: "jsval option \<Rightarrow> bool" where
  "is_defined a = (case a of Some v \<Rightarrow> True | None \<Rightarrow> False)"

text \<open>
  \<^verbatim>\<open>extrudeHex(hexMesh, height)\<close> replaces the mesh stored under the hex id by a new one, with
  the colour found on the old one.
\<close>

definition extrudeHex :: "string \<Rightarrow> HexMesh \<Rightarrow> jsval \<Rightarrow> HexGrid \<Rightarrow> HexGrid" where
  "extrudeHex hexId hexMesh h grid =
     (let currentColor = (case customColor hexMesh of Some c \<Rightarrow> c | None \<Rightarrow> topColor hexMesh)
      in grid\<lparr>hexMeshes := (hexMeshes grid)(hexId \<mapsto>
           \<lparr>customColor = Some currentColor, height = Some h, topColor = currentColor\<rparr>)\<rparr>)"

text \<open>
  \<^verbatim>\<open>spawnVoxelModelOnHex(hexId, options)\<close>, for the options \<^verbatim>\<open>updateHexState\<close> builds (they
  carry a \<^verbatim>\<open>modelType\<close> and no \<^verbatim>\<open>heightOffset\<close>).
\<close>

definition spawnVoxelModelOnHex :: "string \<Rightarrow> jsobject \<Rightarrow> HexGrid \<Rightarrow> HexGrid" where
  "spawnVoxelModelOnHex hexId options grid =
     (if \<not> voxelModelManager grid then grid
      else case js_get (hexMeshes grid) hexId of
             Undefined \<Rightarrow> grid
           | Inherited \<Rightarrow> grid
           | Own hex \<Rightarrow>
               (let hexHeight = (case height hex of Some (JNum n) \<Rightarrow> JNum n | _ \<Rightarrow> JNum 0);
                    heightOffset = or_default (options ''heightOffset'') (JNum 1)
                in grid\<lparr>voxelModels := (voxelModels grid)(hexId \<mapsto>
                     [''heightOffset'' \<mapsto> heightOffset,
                      ''animate'' \<mapsto> (case options ''animate'' of Some v \<Rightarrow> v | None \<Rightarrow> JBool True),
                      ''hoverRange'' \<mapsto> or_default (options ''hoverRange'') (JNum (2 / 10)),
                      ''hoverSpeed'' \<mapsto> or_default (options ''hoverSpeed'') (JNum 1),
                      ''rotateSpeed'' \<mapsto> or_default (options ''rotateSpeed'') (JNum (5 / 10)),
                      ''hexHeight'' \<mapsto> hexHeight])\<rparr>))"

text \<open>
  The function. In its last \<^verbatim>\<open>else if\<close> it reads \<^verbatim>\<open>heightChanged\<close>, a name that is declared
  nowhere in the class or the module: reading it throws a \<^verbatim>\<open>ReferenceError\<close>. A mesh that
  is found by inheritance has no \<^verbatim>\<open>userData\<close>, and the first access to it throws a
  \<^verbatim>\<open>TypeError\<close>.
\<close>

definition HexGrid_updateHexState ::
  "string \<Rightarrow> jsobject \<Rightarrow> HexGrid \<Rightarrow> unit completion \<times> HexGrid" where
  "HexGrid_updateHexState hexId state grid =
     (case js_get (hexMeshes grid) hexId of
        Undefined \<Rightarrow> (Returns (), grid)
      | Inherited \<Rightarrow>
          (if is_truthy (state ''color'') \<or> is_defined (state ''height'') \<or> is_truthy (state ''voxelModel'')
           then (Throws TypeError, grid)
           else (Throws ReferenceError, grid))
      | Own hex \<Rightarrow>
          (let hex1 = (case state ''color'' of
                         Some c \<Rightarrow> if truthy c then hex\<lparr>customColor := Some c, topColor := c\<rparr> else hex
                       | None \<Rightarrow> hex);
               grid1 = grid\<lparr>hexMeshes := (hexMeshes grid)(hexId \<mapsto> hex1)\<rparr>;
               hex2 = (case state ''height'' of Some h \<Rightarrow> hex1\<lparr>height := Some h\<rparr> | None \<Rightarrow> hex1);
               grid2 = (case state ''height'' of Some h \<Rightarrow> extrudeHex hexId hex2 h grid1 | None \<Rightarrow> grid1)
           in case state ''voxelModel'' of
                None \<Rightarrow> (Throws ReferenceError, grid2)
              | Some vm \<Rightarrow>
                  if truthy vm
                  then (let modelOptions =
                              [''scale'' \<mapsto> or_default (field vm ''scale'') (JNum (15 / 10)),
                               ''rotation'' \<mapsto> or_default (field vm ''rotation'')
                                  (JObj [(''x'', JNum 0), (''y'', JNum 0), (''z'', JNum 0)]),
                               ''animate'' \<mapsto> (case field vm ''animate'' of Some v \<Rightarrow> v | None \<Rightarrow> JBool True),
                               ''hoverRange'' \<mapsto> or_default (field vm ''hoverRange'') (JNum (2 / 10)),
                               ''hoverSpeed'' \<mapsto> or_default (field vm ''hoverSpeed'') (JNum 1),
                               ''rotateSpeed'' \<mapsto> or_default (field vm ''rotateSpeed'') (JNum (5 / 10)),
                               ''hexHeight'' \<mapsto> or_default (height hex2) (JNum 0)]
                        in if is_truthy (field vm ''type'')
                           then (Returns (),
                                 spawnVoxelModelOnHex hexId
                                   (modelOptions(''modelType'' := field vm ''type'')) grid2)
                           else (Returns (), grid2))
                  else (Throws ReferenceError, grid2)))"


section \<open>Properties of the hexagonal region\<close>

declare r_loop.simps [simp del] q_loop.simps [simp del] bit_length.simps [simp del]

lemma bit_length_le: "m < 2 ^ k \<Longrightarrow> bit_length m \<le> k"
proof (induction k arbitrary: m)
  case 0
  then show ?case by (subst bit_length.simps) simp
next
  case (Suc k)
  show ?case
  proof (cases "m \<le> 0")
    case True
    then show ?thesis by (subst bit_length.simps) simp
  next
    case False
    have "m div 2 < 2 ^ k"
      using Suc.prems by simp
    then have "bit_length (m div 2) \<le> k"
      by (rule Suc.IH)
    then show ?thesis
      using False by (subst bit_length.simps) simp
  qed
qed

lemma to_double_top: "to_double 9007199254740992 = 9007199254740992"
  by (simp add: to_double_def Let_def bit_length.simps)

lemma to_double_minus: "to_double (- n) = - to_double n"
  by (simp add: to_double_def Let_def)

lemma to_double_exact:
  assumes "\<bar>n\<bar> \<le> 2 ^ 53"
  shows "to_double n = n"
proof (cases "\<bar>n\<bar> < 2 ^ 53")
  case True
  then have "bit_length \<bar>n\<bar> \<le> 53"
    by (rule bit_length_le)
  then show ?thesis
    by (simp add: to_double_def Let_def)
next
  case False
  then have "n = 9007199254740992 \<or> n = - 9007199254740992"
    using assms by auto
  then show ?thesis
    using to_double_top to_double_minus [of 9007199254740992] by auto
qed

text \<open>Beyond \<open>2^53\<close> only every second integer is a double, and a tie goes to the even one.\<close>

lemma to_double_examples:
  "to_double 9007199254740993 = 9007199254740992
   \<and> to_double 9007199254740994 = 9007199254740994
   \<and> to_double 9007199254740995 = 9007199254740996
   \<and> to_double (- 9007199254740993) = - 9007199254740992"
  by (simp add: to_double_def Let_def bit_length.simps)

lemma r_loop_upto:
  "length results \<le> max_array_length \<Longrightarrow>
   r_loop cq cr q r r2 results =
     (if length results + nat (r2 + 1 - r) \<le> max_array_length
      then Returns (results @ map (\<lambda>r. (to_double (cq + q), to_double (cr + r))) [r..r2])
      else Throws RangeError)"
proof (induction cq cr q r r2 results rule: r_loop.induct)
  case (1 cq cr q r r2 results)
  show ?case
  proof (cases "r \<le> r2")
    case True
    note r = this
    show ?thesis
    proof (cases "length results < max_array_length")
      case True
      have n: "nat (r2 + 1 - r) = Suc (nat (r2 + 1 - (r + 1)))"
        using r by simp
      show ?thesis
        using "1.IH" [OF r True] True r
        by (subst r_loop.simps) (simp add: upto_rec1 [of r r2] n del: nat_diff_distrib)
    next
      case False
      then show ?thesis
        using r by (subst r_loop.simps) simp
    qed
  next
    case False
    then show ?thesis
      using "1.prems" by (subst r_loop.simps) simp
  qed
qed

lemma length_rounded_row:
  "length (rounded_row cq cr radius q) = length (hex_row cq cr radius q)"
  by (simp add: rounded_row_def hex_row_def)

lemma r_loop_row:
  "length results \<le> max_array_length \<Longrightarrow>
   r_loop cq cr q (max (- radius) (- q - radius)) (min radius (- q + radius)) results =
     (if length results + length (rounded_row cq cr radius q) \<le> max_array_length
      then Returns (results @ rounded_row cq cr radius q)
      else Throws RangeError)"
  by (simp only: r_loop_upto rounded_row_def length_map length_upto)
    (simp add: algebra_simps)

lemma q_loop_upto:
  "length results \<le> max_array_length \<Longrightarrow>
   q_loop cq cr radius q results =
     (if length results + length (concat (map (rounded_row cq cr radius) [q..radius]))
           \<le> max_array_length
      then Returns (results @ concat (map (rounded_row cq cr radius) [q..radius]))
      else Throws RangeError)"
proof (induction cq cr radius q results rule: q_loop.induct)
  case (1 cq cr radius q results)
  let ?row = "rounded_row cq cr radius q"
  show ?case
  proof (cases "q \<le> radius")
    case True
    note q = this
    have rows: "[q..radius] = q # [q + 1..radius]"
      using q by (simp add: upto_rec1)
    show ?thesis
    proof (cases "length results + length ?row \<le> max_array_length")
      case True
      have r: "r_loop cq cr q (max (- radius) (- q - radius)) (min radius (- q + radius)) results
               = Returns (results @ ?row)"
        using True "1.prems" by (simp only: r_loop_row if_True)
      have "q_loop cq cr radius q results = q_loop cq cr radius (q + 1) (results @ ?row)"
        using q by (subst q_loop.simps) (simp only: if_True Let_def r completion.case)
      also have "\<dots> =
          (if length (results @ ?row)
                + length (concat (map (rounded_row cq cr radius) [q + 1..radius]))
                \<le> max_array_length
           then Returns ((results @ ?row) @ concat (map (rounded_row cq cr radius) [q + 1..radius]))
           else Throws RangeError)"
        using "1.IH" [OF q refl refl r] True by simp
      finally show ?thesis
        unfolding rows by (simp add: add.assoc)
    next
      case False
      have r: "r_loop cq cr q (max (- radius) (- q - radius)) (min radius (- q + radius)) results
               = Throws RangeError"
        using False "1.prems" by (simp only: r_loop_row if_False)
      have "q_loop cq cr radius q results = Throws RangeError"
        using q by (subst q_loop.simps) (simp only: if_True Let_def r completion.case)
      then show ?thesis
        using False unfolding rows by simp
    qed
  next
    case False
    then show ?thesis
      using "1.prems" by (subst q_loop.simps) simp
  qed
qed


lemma set_upto_abs: "0 \<le> n \<Longrightarrow> r \<in> set [max (- n) (- q - n)..min n (- q + n)] \<Longrightarrow> \<bar>r\<bar> \<le> n"
  by auto

lemma rounded_row_exact:
  assumes "0 \<le> n" "- n \<le> q" "q \<le> n" "\<bar>cq\<bar> + n \<le> 2 ^ 53" "\<bar>cr\<bar> + n \<le> 2 ^ 53"
  shows "rounded_row cq cr n q = hex_row cq cr n q"
proof -
  have q: "to_double (cq + q) = cq + q"
    using assms by (intro to_double_exact) linarith
  have "to_double (cr + r) = cr + r" if "r \<in> set [max (- n) (- q - n)..min n (- q + n)]" for r
  proof -
    have "\<bar>r\<bar> \<le> n"
      using assms(1) that by (rule set_upto_abs)
    then show ?thesis
      using assms by (intro to_double_exact) linarith
  qed
  then show ?thesis
    unfolding rounded_row_def hex_row_def q by (intro map_cong refl) simp
qed

lemma rounded_rows_exact:
  assumes "0 \<le> n" "\<bar>cq\<bar> + n \<le> 2 ^ 53" "\<bar>cr\<bar> + n \<le> 2 ^ 53"
  shows "concat (map (rounded_row cq cr n) [- n..n]) = cellsWithinRadius cq cr n"
proof -
  have "map (rounded_row cq cr n) [- n..n] = map (hex_row cq cr n) [- n..n]"
    using assms by (intro map_cong refl rounded_row_exact) simp_all
  then show ?thesis
    unfolding cellsWithinRadius_def by (rule arg_cong [where f = concat])
qed

lemma length_rounded_rows:
  "length (concat (map (rounded_row cq cr n) [- n..n])) = length (cellsWithinRadius cq cr n)"
  by (simp add: cellsWithinRadius_def length_concat comp_def length_rounded_row)

lemma length_hex_row:
  "- n \<le> q \<Longrightarrow> q \<le> n \<Longrightarrow> length (hex_row cq cr n q) = nat (2 * n + 1 - \<bar>q\<bar>)"
  by (auto simp: hex_row_def)

lemma set_hex_row:
  "set (hex_row cq cr n q) =
     {(cq + q, cr + r) | r. max (- n) (- q - n) \<le> r \<and> r \<le> min n (- q + n)}"
  by (auto simp: hex_row_def)

lemma distinct_hex_row: "distinct (hex_row cq cr n q)"
  by (simp add: hex_row_def distinct_map inj_on_def)

lemma sum_abs_sym: "(\<Sum>q\<in>{- int n..int n}. \<bar>q\<bar>) = int n * (int n + 1)"
proof (induction n)
  case 0
  show ?case by simp
next
  case (Suc n)
  have "{- int (Suc n)..int (Suc n)} =
        insert (- int (Suc n)) (insert (int (Suc n)) {- int n..int n})"
    by auto
  then show ?case using Suc by (simp add: algebra_simps)
qed

lemma length_cellsWithinRadius:
  assumes "0 \<le> n"
  shows "int (length (cellsWithinRadius cq cr n)) = 3 * n\<^sup>2 + 3 * n + 1"
proof -
  obtain m where n: "n = int m"
    using assms by (metis nonneg_int_cases)
  have "int (length (cellsWithinRadius cq cr n)) =
        (\<Sum>q\<leftarrow>[- n..n]. int (length (hex_row cq cr n q)))"
    by (simp add: cellsWithinRadius_def length_concat comp_def flip: sum_list_of_nat)
  also have "\<dots> = (\<Sum>q\<leftarrow>[- n..n]. 2 * n + 1 - \<bar>q\<bar>)"
    by (rule arg_cong [where f = sum_list], rule map_cong) (auto simp: length_hex_row)
  also have "\<dots> = (\<Sum>q\<in>{- n..n}. 2 * n + 1 - \<bar>q\<bar>)"
    by (simp add: interv_sum_list_conv_sum_set_int)
  also have "\<dots> = (2 * n + 1) * (2 * n + 1) - (\<Sum>q\<in>{- n..n}. \<bar>q\<bar>)"
    using assms by (simp add: sum_subtractf)
  also have "\<dots> = 3 * n\<^sup>2 + 3 * n + 1"
    unfolding n sum_abs_sym by (simp add: power2_eq_square algebra_simps)
  finally show ?thesis .
qed

lemma distinct_concat_map:
  "distinct xs \<Longrightarrow> (\<And>x. x \<in> set xs \<Longrightarrow> distinct (f x)) \<Longrightarrow>
   (\<And>x y. x \<in> set xs \<Longrightarrow> y \<in> set xs \<Longrightarrow> x \<noteq> y \<Longrightarrow> set (f x) \<inter> set (f y) = {}) \<Longrightarrow>
   distinct (concat (map f xs))"
proof (induction xs)
  case Nil
  then show ?case by simp
next
  case (Cons a xs)
  have "distinct (concat (map f xs))"
    using Cons by simp
  moreover have "set (f a) \<inter> set (f y) = {}" if "y \<in> set xs" for y
    using Cons.prems(1) Cons.prems(3) [of a y] that by auto
  ultimately show ?case
    using Cons.prems(2) [of a] by auto
qed

lemma distinct_cellsWithinRadius: "distinct (cellsWithinRadius cq cr n)"
  unfolding cellsWithinRadius_def
  by (rule distinct_concat_map) (auto simp: distinct_hex_row set_hex_row)

text \<open>
  What a call with a radius \<open>n \<ge> 0\<close> does: it returns the rows with their rounded sums when
  the \<open>3n\<^sup>2 + 3n + 1\<close> cells fit in an array, and throws otherwise.
\<close>

lemma getHexesInRadius_outcome:
  assumes "0 \<le> n"
  shows "getHexesInRadius cq cr n =
     (if 3 * n\<^sup>2 + 3 * n + 1 \<le> 4294967295
      then Returns (concat (map (rounded_row cq cr n) [- n..n]))
      else Throws RangeError)"
proof -
  have "int (length (concat (map (rounded_row cq cr n) [- n..n]))) = 3 * n\<^sup>2 + 3 * n + 1"
    using length_cellsWithinRadius [OF assms] by (simp only: length_rounded_rows)
  then have "length (concat (map (rounded_row cq cr n) [- n..n])) \<le> max_array_length
             \<longleftrightarrow> 3 * n\<^sup>2 + 3 * n + 1 \<le> 4294967295"
    unfolding max_array_length_def by linarith
  then show ?thesis
    by (simp add: getHexesInRadius_def q_loop_upto)
qed

lemma radius_fits:
  assumes "0 \<le> n" "n \<le> 37836"
  shows "3 * n\<^sup>2 + 3 * n + 1 \<le> (4294967295::int)"
proof -
  have "n * n \<le> 37836 * 37836"
    using assms by (intro mult_mono) simp_all
  then show ?thesis
    using assms by (simp add: power2_eq_square)
qed

text \<open>
  Claim C6 does not hold for every centre and every radius. Around the centre \<open>(2^53, 0)\<close>
  the radius 1 gives seven cells of which five are distinct: \<open>2^53 + 1\<close> is not a double, and
  the sum \<^verbatim>\<open>centerQ + q\<close> for \<open>q = 1\<close> is rounded to \<open>2^53\<close>, so the row of \<open>q = 1\<close> repeats
  two cells of the row of \<open>q = 0\<close>. With the radius \<open>37837\<close> the region has
  \<open>4295029219\<close> cells, more than an array can hold, and \<^verbatim>\<open>results.push\<close> throws.
\<close>

theorem getHexesInRadius_large_counterexample:
  "getHexesInRadius 9007199254740992 0 1 = Returns
     [(9007199254740991, 0), (9007199254740991, 1),
      (9007199254740992, - 1), (9007199254740992, 0), (9007199254740992, 1),
      (9007199254740992, - 1), (9007199254740992, 0)]
   \<and> \<not> distinct
     [(9007199254740991, 0), (9007199254740991, 1),
      (9007199254740992, - 1), (9007199254740992, 0), (9007199254740992, 1),
      (9007199254740992, - 1), (9007199254740992 :: int, 0 :: int)]
   \<and> getHexesInRadius 0 0 37837 = Throws RangeError"
proof -
  have "getHexesInRadius 9007199254740992 0 1 = Returns
     [(9007199254740991, 0), (9007199254740991, 1),
      (9007199254740992, - 1), (9007199254740992, 0), (9007199254740992, 1),
      (9007199254740992, - 1), (9007199254740992, 0)]"
    by (simp add: getHexesInRadius_def q_loop.simps r_loop.simps max_array_length_def
          to_double_def Let_def bit_length.simps)
  moreover have "getHexesInRadius 0 0 37837 = Throws RangeError"
    by (simp add: getHexesInRadius_outcome)
  ultimately show ?thesis
    by simp
qed

text \<open>
  Claim C6, within the range where the sums are exact and the array can hold the cells. For
  every integer radius \<open>n\<close> from \<open>0\<close> to \<open>37836\<close> and every integer centre with
  \<open>|centerQ| + n \<le> 2^53\<close> and \<open>|centerR| + n \<le> 2^53\<close>, \<^verbatim>\<open>getHexesInRadius\<close> returns exactly
  \<open>3n\<^sup>2 + 3n + 1\<close> cells, all distinct: they are, in order, the cells
  \<open>(centerQ + q, centerR + r)\<close> for \<open>q\<close> from \<open>-n\<close> to \<open>n\<close> and, for each \<open>q\<close>, \<open>r\<close> from
  \<open>max(-n, -q-n)\<close> to \<open>min(n, -q+n)\<close>. The memory that the array needs is not modelled.
\<close>

theorem getHexesInRadius_region:
  assumes "0 \<le> n" "n \<le> 37836" "\<bar>centerQ\<bar> + n \<le> 2 ^ 53" "\<bar>centerR\<bar> + n \<le> 2 ^ 53"
  shows "\<exists>cells. getHexesInRadius centerQ centerR n = Returns cells
       \<and> cells = cellsWithinRadius centerQ centerR n
       \<and> int (length cells) = 3 * n\<^sup>2 + 3 * n + 1
       \<and> distinct cells
       \<and> set cells =
           {(centerQ + q, centerR + r) | q r.
              - n \<le> q \<and> q \<le> n \<and> max (- n) (- q - n) \<le> r \<and> r \<le> min n (- q + n)}"
proof -
  have "getHexesInRadius centerQ centerR n = Returns (cellsWithinRadius centerQ centerR n)"
    using assms
    by (simp only: getHexesInRadius_outcome radius_fits rounded_rows_exact if_True)
  moreover have "set (cellsWithinRadius centerQ centerR n) =
           {(centerQ + q, centerR + r) | q r.
              - n \<le> q \<and> q \<le> n \<and> max (- n) (- q - n) \<le> r \<and> r \<le> min n (- q + n)}"
    by (auto simp: cellsWithinRadius_def set_hex_row)
  moreover have "int (length (cellsWithinRadius centerQ centerR n)) = 3 * n\<^sup>2 + 3 * n + 1"
    using assms(1) by (rule length_cellsWithinRadius)
  moreover have "distinct (cellsWithinRadius centerQ centerR n)"
    by (rule distinct_cellsWithinRadius)
  ultimately show ?thesis
    by blast
qed

text \<open>Claim C6 at radius 2 around the centre \<open>(5, -3)\<close>: 19 cells.\<close>

theorem getHexesInRadius_region_witness:
  "(0::int) \<le> 2 \<and> (2::int) \<le> 37836 \<and> \<bar>5::int\<bar> + 2 \<le> 2 ^ 53 \<and> \<bar>- 3::int\<bar> + 2 \<le> 2 ^ 53
   \<and> getHexesInRadius 5 (- 3) 2 = Returns (cellsWithinRadius 5 (- 3) 2)
   \<and> int (length (cellsWithinRadius 5 (- 3) 2)) = 19
   \<and> distinct (cellsWithinRadius 5 (- 3) 2)"
proof -
  have h: "(0::int) \<le> 2" "(2::int) \<le> 37836" "\<bar>5::int\<bar> + 2 \<le> 2 ^ 53" "\<bar>- 3::int\<bar> + 2 \<le> 2 ^ 53"
    by simp_all
  obtain cells where c: "getHexesInRadius 5 (- 3) 2 = Returns cells"
      "cells = cellsWithinRadius 5 (- 3) 2"
      "int (length cells) = 3 * 2\<^sup>2 + 3 * 2 + 1" "distinct cells"
    using getHexesInRadius_region [OF h] by blast
  have "int (length cells) = 19"
    using c(3) by simp
  then show ?thesis
    using h c by blast
qed


section \<open>Properties of the noise generator\<close>

declare fill_loop.simps [simp del] shuffle_loop.simps [simp del] copy_loop.simps [simp del]
  octave_loop.simps [simp del]

lemma mulberry32_word:
  "\<exists>w :: 32 word. fst (mulberry32 a) = real (unat w) / 4294967296"
  unfolding mulberry32_def Let_def fst_conv by (rule exI) (rule refl)

lemma mulberry32_range: "0 \<le> fst (mulberry32 a) \<and> fst (mulberry32 a) < 1"
proof -
  obtain w :: "32 word" where w: "fst (mulberry32 a) = real (unat w) / 4294967296"
    using mulberry32_word by blast
  have "unat w < 4294967296"
    using unsigned_less [of w, where 'a = nat] by simp
  then have "real (unat w) < 4294967296"
    by (metis of_nat_less_numeral_iff)
  moreover have "0 \<le> real (unat w)"
    by (rule of_nat_0_le_iff)
  ultimately show ?thesis
    unfolding w by (simp del: of_nat_unat)
qed

lemma shuffle_index:
  assumes "0 \<le> rnd" "rnd < 1"
  shows "nat \<lfloor>rnd * real (i + 1)\<rfloor> \<le> i"
proof -
  have "rnd * real (i + 1) < real (i + 1)"
    using assms by simp
  then have "\<lfloor>rnd * real (i + 1)\<rfloor> < int (i + 1)"
    by (simp add: floor_less_iff)
  then show ?thesis by simp
qed

lemma fill_loop_eq:
  "i \<le> 256 \<Longrightarrow> length p = 512 \<Longrightarrow>
   fill_loop i p = take i p @ map Some [i..<256] @ drop 256 p"
proof (induction i p rule: fill_loop.induct)
  case (1 i p)
  show ?case
  proof (cases "i < 256")
    case True
    have "fill_loop i p = fill_loop (i + 1) (p[i := Some i])"
      using True "1.prems" by (subst fill_loop.simps) (simp add: js_write_def)
    also have "\<dots> = take (i + 1) (p[i := Some i]) @ map Some [i + 1..<256] @ drop 256 (p[i := Some i])"
      using "1.IH" [OF True] True "1.prems" by (simp add: js_write_def)
    also have "\<dots> = take i p @ map Some [i..<256] @ drop 256 p"
      using True "1.prems" by (simp add: take_Suc_conv_app_nth upt_conv_Cons)
    finally show ?thesis .
  next
    case False
    then show ?thesis using "1.prems" by (subst fill_loop.simps) simp
  qed
qed

lemma fill_loop_init:
  "fill_loop 0 (replicate 512 None) = map Some [0..<256] @ replicate 256 None"
  by (simp add: fill_loop_eq)

lemma shuffled_swap:
  assumes "shuffled p" "i < 256" "j < 256"
  shows "shuffled (js_write (js_write p i (js_read p j)) j (js_read p i))"
proof -
  have len: "length p = 512" using assms by (simp add: shuffled_def)
  have w: "js_write (js_write p i (js_read p j)) j (js_read p i) = p[i := p ! j, j := p ! i]"
    using assms len by (simp add: js_write_def js_read_def)
  have "take 256 (p[i := p ! j, j := p ! i]) = (take 256 p)[i := take 256 p ! j, j := take 256 p ! i]"
    using assms len by (simp add: take_update_swap)
  moreover have "mset ((take 256 p)[i := take 256 p ! j, j := take 256 p ! i]) = mset (take 256 p)"
    using assms len mset_swap [of j "take 256 p" i] by simp
  moreover have "drop 256 (p[i := p ! j, j := p ! i]) = drop 256 p"
    using assms by simp
  ultimately show ?thesis
    using assms(1) unfolding w shuffled_def by simp
qed

lemma shuffle_loop_shuffled:
  "shuffled p \<Longrightarrow> i < 256 \<Longrightarrow> shuffled (shuffle_loop i a p)"
proof (induction i a p rule: shuffle_loop.induct)
  case (1 i a p)
  show ?case
  proof (cases "0 < i")
    case True
    obtain rnd a' where m: "mulberry32 a = (rnd, a')"
      by (cases "mulberry32 a")
    define j where "j = nat \<lfloor>rnd * real (i + 1)\<rfloor>"
    have "j \<le> i"
      using mulberry32_range [of a] m unfolding j_def by (intro shuffle_index) simp_all
    then have sw: "shuffled (js_write (js_write p i (js_read p j)) j (js_read p i))"
      using "1.prems" by (intro shuffled_swap) simp_all
    have "shuffle_loop i a p =
          shuffle_loop (i - 1) a' (js_write (js_write p i (js_read p j)) j (js_read p i))"
      using True m by (subst shuffle_loop.simps) (simp add: Let_def j_def)
    moreover have "shuffled (shuffle_loop (i - 1) a' (js_write (js_write p i (js_read p j)) j (js_read p i)))"
      using "1.IH" [OF True m [symmetric] refl j_def refl refl sw] "1.prems" by simp
    ultimately show ?thesis by simp
  next
    case False
    then show ?thesis using "1.prems" by (subst shuffle_loop.simps) simp
  qed
qed

lemma copy_loop_eq:
  "i \<le> 256 \<Longrightarrow> length p = 512 \<Longrightarrow>
   copy_loop i p = take (256 + i) p @ drop i (take 256 p)"
proof (induction i p rule: copy_loop.induct)
  case (1 i p)
  show ?case
  proof (cases "i < 256")
    case True
    let ?p' = "p[i + 256 := p ! i]"
    have "copy_loop i p = copy_loop (i + 1) ?p'"
      using True "1.prems" by (subst copy_loop.simps) (simp add: js_write_def js_read_def)
    also have "\<dots> = take (256 + (i + 1)) ?p' @ drop (i + 1) (take 256 ?p')"
      using "1.IH" [OF True] True "1.prems" by (simp add: js_write_def js_read_def)
    also have "\<dots> = take (256 + i) p @ [p ! i] @ drop (i + 1) (take 256 p)"
    proof -
      have "take (Suc (256 + i)) ?p' = take (256 + i) ?p' @ [?p' ! (256 + i)]"
        using True "1.prems" by (intro take_Suc_conv_app_nth) simp
      then have "take (256 + (i + 1)) ?p' = take (256 + i) p @ [p ! i]"
        using True "1.prems" by (simp add: add.commute)
      moreover have "take 256 ?p' = take 256 p"
        by simp
      ultimately show ?thesis by simp
    qed
    also have "\<dots> = take (256 + i) p @ drop i (take 256 p)"
      using True "1.prems" Cons_nth_drop_Suc [of i "take 256 p"] by simp
    finally show ?thesis .
  next
    case False
    then show ?thesis using "1.prems" by (subst copy_loop.simps) simp
  qed
qed



lemma mset_map_Some: "mset (map Some xs) = mset (map Some ys) \<Longrightarrow> mset xs = mset ys"
proof -
  assume "mset (map Some xs) = mset (map Some ys)"
  then have "mset (map the (map Some xs)) = mset (map the (map Some ys))"
    by (metis mset_map)
  then show ?thesis by (simp add: comp_def)
qed

lemma shuffled_init: "shuffled (fill_loop 0 (replicate 512 None))"
  by (simp add: fill_loop_init shuffled_def)

lemma generatePermutation_table:
  "\<exists>xs. generatePermutation sd = map Some (xs @ xs) \<and> mset xs = mset [0..<256]"
proof -
  define q where "q = shuffle_loop 255 sd (fill_loop 0 (replicate 512 None))"
  have sh: "shuffled q"
    unfolding q_def by (intro shuffle_loop_shuffled shuffled_init) simp
  then have len: "length q = 512"
    by (simp add: shuffled_def)
  have "generatePermutation sd = copy_loop 0 q"
    unfolding generatePermutation_def q_def Let_def by (rule refl)
  also have "\<dots> = take 256 q @ take 256 q"
    using len by (simp add: copy_loop_eq)
  finally have g: "generatePermutation sd = take 256 q @ take 256 q" .
  have m: "mset (take 256 q) = mset (map Some [0..<256])"
    using sh by (simp add: shuffled_def)
  have "set (take 256 q) = set (map Some [0..<256])"
    using m by (rule mset_eq_setD)
  then have "\<And>e. e \<in> set (take 256 q) \<Longrightarrow> Some (the e) = e"
    by auto
  then have idm: "map (\<lambda>e. Some (the e)) (take 256 q) = take 256 q"
    by (intro map_idI)
  define xs where "xs = map the (take 256 q)"
  have xs: "take 256 q = map Some xs"
    unfolding xs_def map_map comp_def idm by (rule refl)
  have "mset xs = mset [0..<256]"
    using m unfolding xs by (rule mset_map_Some)
  then show ?thesis
    using g xs by auto
qed

lemma generatePermutation_ok: "table_ok (generatePermutation sd)"
proof -
  obtain xs where p: "generatePermutation sd = map Some (xs @ xs)"
    and m: "mset xs = mset [0..<256]"
    using generatePermutation_table by blast
  have len: "length xs = 256"
    using m by (metis mset_eq_length length_upt diff_zero)
  have set: "set xs = {0..<256}"
    using m by (metis mset_eq_setD set_upt)
  have "\<exists>v<256. map Some (xs @ xs) ! k = Some v" if "k < 512" for k
  proof -
    have k: "k < length (xs @ xs)"
      using that len by simp
    then have "(xs @ xs) ! k \<in> set (xs @ xs)"
      by (rule nth_mem)
    then have "(xs @ xs) ! k < 256"
      using set by auto
    then show ?thesis
      using nth_map [OF k, of Some] by blast
  qed
  moreover have "length (map Some (xs @ xs)) = 512"
    using len by simp
  ultimately show ?thesis
    unfolding table_ok_def p by blast
qed




lemma js_add_NaN [simp]: "js_add a NaN = NaN"
  by (cases a) simp_all

lemma js_mul_NaN [simp]: "js_mul a NaN = NaN"
  by (cases a) simp_all

lemma gradient_NaN [simp]: "gradient h NaN y = NaN"
  by (simp add: gradient_def Let_def)

lemma lerp_NaN [simp]: "lerp NaN b t = NaN"
  by (simp add: lerp_def)

lemma fade_NaN: "fade NaN = NaN"
  by (simp add: fade_def)











text \<open>
  Claim C8. A generator built from a given numeric seed does not depend on anything else: two
  constructions with the same seed, whatever \<^verbatim>\<open>Math.random()\<close> would have returned at either
  time, give the same generator. Its table has 512 entries, the first 256 a permutation of
  \<open>0..255\<close> and the upper half a copy of the lower, and \<^verbatim>\<open>fractalNoise\<close> returns the same
  value on both for every \<open>(x, y)\<close>, octave count and persistence.
\<close>

theorem NoiseGenerator_deterministic:
  "new_NoiseGenerator (Some sd) random1 = new_NoiseGenerator (Some sd) random2
   \<and> length (permutation (new_NoiseGenerator (Some sd) random1)) = 512
   \<and> (\<exists>xs. permutation (new_NoiseGenerator (Some sd) random1) = map Some (xs @ xs)
            \<and> mset xs = mset [0..<256])
   \<and> fractalNoise (new_NoiseGenerator (Some sd) random1) x y octaves persistence
       = fractalNoise (new_NoiseGenerator (Some sd) random2) x y octaves persistence"
proof -
  have same: "new_NoiseGenerator (Some sd) random1 = new_NoiseGenerator (Some sd) random2"
    by (simp add: new_NoiseGenerator_def)
  have p: "permutation (new_NoiseGenerator (Some sd) random1) = generatePermutation sd"
    by (simp add: new_NoiseGenerator_def)
  have "length (generatePermutation sd) = 512"
    using generatePermutation_ok [of sd] by (simp add: table_ok_def)
  then show ?thesis
    using same generatePermutation_table [of sd] unfolding p by simp
qed

text \<open>
  Claim C10. With \<open>octaves = 0\<close> the loop of \<^verbatim>\<open>fractalNoise\<close> does not run, the normalisation
  divides zero by zero, and the result is \<^verbatim>\<open>NaN\<close>, not a number in \<open>[0, 1]\<close>: nothing guards
  the octave count. The same holds for every octave count below 1.
\<close>

theorem fractalNoise_zero_octaves:
  "octave_loop g x y 0 persistence 0 (Num 0) (Num 1) (Num 1) (Num 0) = Some (Num 0, Num 0)
   \<and> js_div (Num 0) (Num 0) = NaN
   \<and> fractalNoise g x y 0 persistence = Some NaN
   \<and> fractalNoise g x y (- int n) persistence = Some NaN"
  by (simp add: fractalNoise_def octave_loop.simps)

section \<open>Properties of the store\<close>

subsection \<open>Room codes\<close>

lemma digit36_mem: "d < 36 \<Longrightarrow> digit36 d \<in> set base36_digits"
  unfolding digit36_def by (rule nth_mem) (simp add: base36_digits_def)

lemma fraction36_zero: "fraction36 n 0 = []"
  by (cases n) simp_all

lemma fraction36_digits:
  "0 \<le> f \<Longrightarrow> f < 1 \<Longrightarrow> set (fraction36 n f) \<subseteq> set base36_digits"
proof (induction n arbitrary: f)
  case 0
  then show ?case by simp
next
  case (Suc n)
  define d where "d = \<lfloor>f * 36\<rfloor>"
  have d: "0 \<le> d" "d < 36"
    using Suc.prems unfolding d_def by (simp_all add: floor_less_iff)
  have rest: "0 \<le> f * 36 - of_int d" "f * 36 - of_int d < 1"
    unfolding d_def by linarith+
  have "digit36 (nat d) \<in> set base36_digits"
    using d by (intro digit36_mem) simp
  moreover have "set (fraction36 n (f * 36 - of_int d)) \<subseteq> set base36_digits"
    by (rule Suc.IH [OF rest])
  ultimately show ?case
    unfolding fraction36.simps Let_def d_def [symmetric] by simp
qed

lemma upper_digits: "list_all (\<lambda>c. toUpperCase_char c \<in> set room_code_alphabet) base36_digits"
  by code_simp

lemma generateRoomCode_format:
  assumes "0 \<le> r" "r < 1"
  shows "length (generateRoomCode r) \<le> 6 \<and> set (generateRoomCode r) \<subseteq> set room_code_alphabet"
proof -
  have sub: "substring (toString36 r) 2 8 = take 6 (fraction36 12 r)"
    by (simp add: substring_def toString36_def fraction36_zero)
  have "set (take 6 (fraction36 12 r)) \<subseteq> set base36_digits"
    using fraction36_digits [OF assms, of 12] set_take_subset [of 6 "fraction36 12 r"] by blast
  then have "set (generateRoomCode r) \<subseteq> set room_code_alphabet"
    unfolding generateRoomCode_def sub toUpperCase_def
    using upper_digits by (auto simp: list_all_iff)
  moreover have "length (generateRoomCode r) \<le> 6"
    unfolding generateRoomCode_def sub toUpperCase_def by simp
  ultimately show ?thesis by simp
qed

lemma Object_prototype_keys_lowercase:
  "list_all (\<lambda>key. \<exists>c \<in> set key. c \<notin> set room_code_alphabet) Object_prototype_keys"
  by code_simp

text \<open>
  A minted code is never one of the inherited names, so \<^verbatim>\<open>createRoom\<close> always stores the
  room as an own property of the table.
\<close>

lemma generateRoomCode_not_inherited:
  assumes "0 \<le> r" "r < 1"
  shows "generateRoomCode r \<notin> set Object_prototype_keys"
  using generateRoomCode_format [OF assms] Object_prototype_keys_lowercase
  by (auto simp: list_all_iff)

text \<open>
  Claim C5. The claim is that \<^verbatim>\<open>createRoom\<close> returns a code of exactly six characters for
  every value of the random source. The characters are always among \<open>0-9\<close>, \<open>A-Z\<close> and there
  are never more than six (\<open>generateRoomCode_format\<close>), but there can be fewer: when
  \<^verbatim>\<open>Math.random()\<close> returns \<open>0.5\<close>, which prints as \<^verbatim>\<open>"0.i"\<close> in base 36, the code is the one
  character \<^verbatim>\<open>"I"\<close>, and when it returns \<open>0\<close> the code is the empty string.
\<close>

theorem generateRoomCode_short:
  "generateRoomCode (1 / 2) = ''I''
   \<and> fst (createRoom (1 / 2) 1000 ''u1'' new_RoomManager) = Returns ''I''
   \<and> length (generateRoomCode (1 / 2)) = 1
   \<and> generateRoomCode 0 = []"
proof -
  have half: "generateRoomCode (1 / 2) = ''I''"
    by code_simp
  have zero: "generateRoomCode 0 = []"
    by code_simp
  have "fst (createRoom (1 / 2) 1000 ''u1'' new_RoomManager) = Returns ''I''"
    by (simp add: createRoom_def half associate_def js_get_def new_RoomManager_def
          Object_prototype_keys_def Let_def)
  then show ?thesis
    using half zero by simp
qed

subsection \<open>Cell updates\<close>

text \<open>The id of a cell contains a comma, so it is none of the inherited names.\<close>

lemma getHexId_comma: "CHR '','' \<in> set (getHexId q r)"
  by (simp add: getHexId_def)

lemma getHexId_not_proto: "getHexId q r \<noteq> ''__proto__''"
proof
  assume "getHexId q r = ''__proto__''"
  then have "CHR '','' \<in> set ''__proto__''"
    using getHexId_comma [of q r] by simp
  then show False by simp
qed

lemma updateHexState_own:
  assumes "rooms s roomCode = Some room" "hexId \<noteq> ''__proto__''"
  shows "updateHexState roomCode hexId action now s =
           (Returns True,
            s\<lparr>rooms := (rooms s)(roomCode \<mapsto> room\<lparr>hexState := (hexState room)(hexId \<mapsto>
                 ((case hexState room hexId of Some old \<Rightarrow> old | None \<Rightarrow> Map.empty) ++ action)
                   (''lastUpdated'' \<mapsto> JNum (real now)))\<rparr>)\<rparr>)"
  using assms
  by (simp add: updateHexState_def js_get_def spread_def Let_def split: option.splits)

lemma stored_cell_update:
  assumes "rooms s roomCode = Some room" "hexId \<noteq> ''__proto__''"
  shows "stored_cell (snd (updateHexState roomCode hexId action now s)) roomCode hexId =
           Some (((case hexState room hexId of Some old \<Rightarrow> old | None \<Rightarrow> Map.empty) ++ action)
                   (''lastUpdated'' \<mapsto> JNum (real now)))"
  by (simp add: updateHexState_own [OF assms] stored_cell_def)

lemma stored_field_update:
  assumes "rooms s roomCode = Some room" "hexId \<noteq> ''__proto__''"
  shows "stored_field (snd (updateHexState roomCode hexId action now s)) roomCode hexId key =
           (if key = ''lastUpdated'' then Some (JNum (real now))
            else case action key of
                   Some v \<Rightarrow> Some v
                 | None \<Rightarrow> stored_field s roomCode hexId key)"
  unfolding stored_field_def stored_cell_update [OF assms]
  using assms(1) by (simp add: stored_cell_def map_add_def split: option.splits)

lemma updateHexState_twice:
  assumes "rooms s roomCode = Some room" and "hexId \<noteq> ''__proto__''"
  shows "snd (updateHexState roomCode hexId action t2 (snd (updateHexState roomCode hexId action t1 s)))
           = snd (updateHexState roomCode hexId action t2 s)"
proof -
  let ?old = "case hexState room hexId of Some old \<Rightarrow> old | None \<Rightarrow> Map.empty"
  let ?c1 = "(?old ++ action)(''lastUpdated'' \<mapsto> JNum (real t1))"
  let ?room1 = "room\<lparr>hexState := (hexState room)(hexId \<mapsto> ?c1)\<rparr>"
  let ?s1 = "s\<lparr>rooms := (rooms s)(roomCode \<mapsto> ?room1)\<rparr>"
  have s1: "snd (updateHexState roomCode hexId action t1 s) = ?s1"
    by (simp add: updateHexState_own [OF assms])
  have r1: "rooms ?s1 roomCode = Some ?room1"
    by simp
  have merge: "(?c1 ++ action)(''lastUpdated'' \<mapsto> JNum (real t2))
             = (?old ++ action)(''lastUpdated'' \<mapsto> JNum (real t2))"
    by (rule ext) (simp add: map_add_def split: option.splits)
  have "snd (updateHexState roomCode hexId action t2 ?s1)
          = s\<lparr>rooms := (rooms s)(roomCode \<mapsto> room\<lparr>hexState := (hexState room)(hexId \<mapsto>
                 (?old ++ action)(''lastUpdated'' \<mapsto> JNum (real t2)))\<rparr>)\<rparr>"
    using updateHexState_own [OF r1 assms(2), of action t2] merge by simp
  then show ?thesis
    unfolding s1 by (simp add: updateHexState_own [OF assms])
qed

lemma updateHexState_keeps_room:
  assumes "rooms s roomCode = Some room" and "hexId \<noteq> ''__proto__''"
  shows "\<exists>room1. rooms (snd (updateHexState roomCode hexId action now s)) roomCode = Some room1"
  by (simp add: updateHexState_own [OF assms])

text \<open>
  Claim C1, as the claim states it, fails on one field: \<open>lastUpdated\<close> is not in the delta
  \<^verbatim>\<open>{height: 2}\<close>, and the update changes it. The cell is \<open>(0, 0)\<close> of room \<^verbatim>\<open>AB12CD\<close>, which
  holds \<^verbatim>\<open>{color: "#00ff00", lastUpdated: 1000}\<close>; the update is made at time 2000.
\<close>

theorem updateHexState_stamp_counterexample:
  "[''height'' \<mapsto> JNum 2] ''lastUpdated'' = None
   \<and> stored_field
        \<lparr>rooms = [''AB12CD'' \<mapsto> \<lparr>host = ''u1'', users = [''u1''],
            hexState = [getHexId 0 0 \<mapsto> [''color'' \<mapsto> JStr ''#00ff00'', ''lastUpdated'' \<mapsto> JNum 1000]],
            createdAt = 0\<rparr>],
          userRooms = [''u1'' \<mapsto> [''AB12CD'']]\<rparr>
        ''AB12CD'' (getHexId 0 0) ''lastUpdated'' = Some (JNum 1000)
   \<and> stored_field
        (snd (updateHexState ''AB12CD'' (getHexId 0 0) [''height'' \<mapsto> JNum 2] 2000
           \<lparr>rooms = [''AB12CD'' \<mapsto> \<lparr>host = ''u1'', users = [''u1''],
               hexState = [getHexId 0 0 \<mapsto> [''color'' \<mapsto> JStr ''#00ff00'', ''lastUpdated'' \<mapsto> JNum 1000]],
               createdAt = 0\<rparr>],
             userRooms = [''u1'' \<mapsto> [''AB12CD'']]\<rparr>))
        ''AB12CD'' (getHexId 0 0) ''lastUpdated'' = Some (JNum 2000)"
proof -
  let ?room = "\<lparr>host = ''u1'', users = [''u1''],
      hexState = [getHexId 0 0 \<mapsto> [''color'' \<mapsto> JStr ''#00ff00'', ''lastUpdated'' \<mapsto> JNum 1000]],
      createdAt = 0\<rparr>"
  let ?s = "\<lparr>rooms = [''AB12CD'' \<mapsto> ?room], userRooms = [''u1'' \<mapsto> [''AB12CD'']]\<rparr>"
  have room: "rooms ?s ''AB12CD'' = Some ?room"
    by simp
  have "stored_field ?s ''AB12CD'' (getHexId 0 0) ''lastUpdated'' = Some (JNum 1000)"
    by (simp add: stored_field_def stored_cell_def)
  moreover have "stored_field
        (snd (updateHexState ''AB12CD'' (getHexId 0 0) [''height'' \<mapsto> JNum 2] 2000 ?s))
        ''AB12CD'' (getHexId 0 0) ''lastUpdated'' = Some (JNum 2000)"
    by (simp add: stored_field_update [OF room getHexId_not_proto])
  ultimately show ?thesis
    by simp
qed

text \<open>
  Claim C1, amended. Applying a delta to a cell of an existing room is a shallow merge: each
  field the delta carries (\<open>color\<close>, \<open>height\<close>, \<open>voxelModel\<close>) replaces the stored field as a
  whole, the \<open>voxelModel\<close> object included, and each field it does not carry keeps its stored
  value (none, when the cell is new), except \<open>lastUpdated\<close>, which is set to the server's
  time on every update, whether or not the delta carries it.
\<close>

theorem updateHexState_shallow_merge:
  assumes "rooms s roomCode = Some room"
  shows "fst (updateHexState roomCode (getHexId q r) action now s) = Returns True
       \<and> (\<forall>key. key \<noteq> ''lastUpdated'' \<longrightarrow>
              stored_field (snd (updateHexState roomCode (getHexId q r) action now s))
                 roomCode (getHexId q r) key
              = (case action key of
                   Some v \<Rightarrow> Some v
                 | None \<Rightarrow> stored_field s roomCode (getHexId q r) key))
       \<and> stored_field (snd (updateHexState roomCode (getHexId q r) action now s))
            roomCode (getHexId q r) ''lastUpdated'' = Some (JNum (real now))"
proof -
  note proto = getHexId_not_proto [of q r]
  have "fst (updateHexState roomCode (getHexId q r) action now s) = Returns True"
    by (simp add: updateHexState_own [OF assms proto])
  moreover have "\<forall>key. key \<noteq> ''lastUpdated'' \<longrightarrow>
      stored_field (snd (updateHexState roomCode (getHexId q r) action now s))
        roomCode (getHexId q r) key
      = (case action key of
           Some v \<Rightarrow> Some v
         | None \<Rightarrow> stored_field s roomCode (getHexId q r) key)"
    by (simp add: stored_field_update [OF assms proto])
  moreover have "stored_field (snd (updateHexState roomCode (getHexId q r) action now s))
      roomCode (getHexId q r) ''lastUpdated'' = Some (JNum (real now))"
    by (simp add: stored_field_update [OF assms proto])
  ultimately show ?thesis
    by blast
qed

text \<open>
  Claim C1 on its own example: \<^verbatim>\<open>{height: 2}\<close> applied to a cell that holds
  \<^verbatim>\<open>{color: "#00ff00"}\<close> gives a cell with that colour, height 2 and no model.
\<close>

theorem updateHexState_shallow_merge_witness:
  "rooms \<lparr>rooms = [''AB12CD'' \<mapsto> \<lparr>host = ''u1'', users = [''u1''],
                      hexState = [getHexId 0 0 \<mapsto> [''color'' \<mapsto> JStr ''#00ff00'']], createdAt = 0\<rparr>],
           userRooms = [''u1'' \<mapsto> [''AB12CD'']]\<rparr> ''AB12CD''
     = Some \<lparr>host = ''u1'', users = [''u1''],
             hexState = [getHexId 0 0 \<mapsto> [''color'' \<mapsto> JStr ''#00ff00'']], createdAt = 0\<rparr>
   \<and> stored_field (snd (updateHexState ''AB12CD'' (getHexId 0 0) [''height'' \<mapsto> JNum 2] 1000
          \<lparr>rooms = [''AB12CD'' \<mapsto> \<lparr>host = ''u1'', users = [''u1''],
                  hexState = [getHexId 0 0 \<mapsto> [''color'' \<mapsto> JStr ''#00ff00'']], createdAt = 0\<rparr>],
            userRooms = [''u1'' \<mapsto> [''AB12CD'']]\<rparr>)) ''AB12CD'' (getHexId 0 0) ''color''
       = Some (JStr ''#00ff00'')
   \<and> stored_field (snd (updateHexState ''AB12CD'' (getHexId 0 0) [''height'' \<mapsto> JNum 2] 1000
          \<lparr>rooms = [''AB12CD'' \<mapsto> \<lparr>host = ''u1'', users = [''u1''],
                  hexState = [getHexId 0 0 \<mapsto> [''color'' \<mapsto> JStr ''#00ff00'']], createdAt = 0\<rparr>],
            userRooms = [''u1'' \<mapsto> [''AB12CD'']]\<rparr>)) ''AB12CD'' (getHexId 0 0) ''height''
       = Some (JNum 2)
   \<and> stored_field (snd (updateHexState ''AB12CD'' (getHexId 0 0) [''height'' \<mapsto> JNum 2] 1000
          \<lparr>rooms = [''AB12CD'' \<mapsto> \<lparr>host = ''u1'', users = [''u1''],
                  hexState = [getHexId 0 0 \<mapsto> [''color'' \<mapsto> JStr ''#00ff00'']], createdAt = 0\<rparr>],
            userRooms = [''u1'' \<mapsto> [''AB12CD'']]\<rparr>)) ''AB12CD'' (getHexId 0 0) ''voxelModel''
       = None"
proof -
  let ?room = "\<lparr>host = ''u1'', users = [''u1''],
                hexState = [getHexId 0 0 \<mapsto> [''color'' \<mapsto> JStr ''#00ff00'']], createdAt = 0\<rparr>"
  let ?s = "\<lparr>rooms = [''AB12CD'' \<mapsto> ?room], userRooms = [''u1'' \<mapsto> [''AB12CD'']]\<rparr>"
  let ?s' = "snd (updateHexState ''AB12CD'' (getHexId 0 0) [''height'' \<mapsto> JNum 2] 1000 ?s)"
  have room: "rooms ?s ''AB12CD'' = Some ?room"
    by simp
  have fields: "\<And>key. key \<noteq> ''lastUpdated'' \<Longrightarrow>
       stored_field ?s' ''AB12CD'' (getHexId 0 0) key
         = (case [''height'' \<mapsto> JNum 2] key of
              Some v \<Rightarrow> Some v
            | None \<Rightarrow> stored_field ?s ''AB12CD'' (getHexId 0 0) key)"
    using updateHexState_shallow_merge [OF room, of 0 0 "[''height'' \<mapsto> JNum 2]" 1000]
    by blast
  have "stored_field ?s' ''AB12CD'' (getHexId 0 0) ''color'' = Some (JStr ''#00ff00'')"
    using fields [of "''color''"] by (simp add: stored_field_def stored_cell_def)
  moreover have "stored_field ?s' ''AB12CD'' (getHexId 0 0) ''height'' = Some (JNum 2)"
    using fields [of "''height''"] by simp
  moreover have "stored_field ?s' ''AB12CD'' (getHexId 0 0) ''voxelModel'' = None"
    using fields [of "''voxelModel''"] by (simp add: stored_field_def stored_cell_def)
  ultimately show ?thesis
    using room by blast
qed

text \<open>
  Claim C2, as the claim states it, fails: the stored cell carries \<open>lastUpdated\<close>, and a second
  application of \<^verbatim>\<open>{color: "#ff0000"}\<close> at a later time changes the stored cell. The cell is
  \<open>(0, 0)\<close> of room \<^verbatim>\<open>AB12CD\<close>; the delta is applied at time 1000 and again at time 2000.
\<close>

theorem updateHexState_twice_counterexample:
  "stored_field
     (snd (updateHexState ''AB12CD'' (getHexId 0 0) [''color'' \<mapsto> JStr ''#ff0000''] 1000
        \<lparr>rooms = [''AB12CD'' \<mapsto> \<lparr>host = ''u1'', users = [''u1''],
                    hexState = Map.empty, createdAt = 0\<rparr>],
          userRooms = [''u1'' \<mapsto> [''AB12CD'']]\<rparr>))
     ''AB12CD'' (getHexId 0 0) ''lastUpdated'' = Some (JNum 1000)
   \<and> stored_field
     (snd (updateHexState ''AB12CD'' (getHexId 0 0) [''color'' \<mapsto> JStr ''#ff0000''] 2000
        (snd (updateHexState ''AB12CD'' (getHexId 0 0) [''color'' \<mapsto> JStr ''#ff0000''] 1000
           \<lparr>rooms = [''AB12CD'' \<mapsto> \<lparr>host = ''u1'', users = [''u1''],
                       hexState = Map.empty, createdAt = 0\<rparr>],
             userRooms = [''u1'' \<mapsto> [''AB12CD'']]\<rparr>))))
     ''AB12CD'' (getHexId 0 0) ''lastUpdated'' = Some (JNum 2000)
   \<and> snd (updateHexState ''AB12CD'' (getHexId 0 0) [''color'' \<mapsto> JStr ''#ff0000''] 2000
        (snd (updateHexState ''AB12CD'' (getHexId 0 0) [''color'' \<mapsto> JStr ''#ff0000''] 1000
           \<lparr>rooms = [''AB12CD'' \<mapsto> \<lparr>host = ''u1'', users = [''u1''],
                       hexState = Map.empty, createdAt = 0\<rparr>],
             userRooms = [''u1'' \<mapsto> [''AB12CD'']]\<rparr>)))
     \<noteq> snd (updateHexState ''AB12CD'' (getHexId 0 0) [''color'' \<mapsto> JStr ''#ff0000''] 1000
           \<lparr>rooms = [''AB12CD'' \<mapsto> \<lparr>host = ''u1'', users = [''u1''],
                       hexState = Map.empty, createdAt = 0\<rparr>],
             userRooms = [''u1'' \<mapsto> [''AB12CD'']]\<rparr>)"
proof -
  let ?d = "[''color'' \<mapsto> JStr ''#ff0000'']"
  let ?room = "\<lparr>host = ''u1'', users = [''u1''], hexState = Map.empty, createdAt = 0\<rparr>"
  let ?s = "\<lparr>rooms = [''AB12CD'' \<mapsto> ?room], userRooms = [''u1'' \<mapsto> [''AB12CD'']]\<rparr>"
  let ?s1 = "snd (updateHexState ''AB12CD'' (getHexId 0 0) ?d 1000 ?s)"
  let ?s2 = "snd (updateHexState ''AB12CD'' (getHexId 0 0) ?d 2000 ?s1)"
  have room: "rooms ?s ''AB12CD'' = Some ?room"
    by simp
  have one: "stored_field ?s1 ''AB12CD'' (getHexId 0 0) ''lastUpdated'' = Some (JNum 1000)"
    by (simp add: stored_field_update [OF room getHexId_not_proto])
  have "?s2 = snd (updateHexState ''AB12CD'' (getHexId 0 0) ?d 2000 ?s)"
    by (rule updateHexState_twice [OF room getHexId_not_proto])
  then have two: "stored_field ?s2 ''AB12CD'' (getHexId 0 0) ''lastUpdated'' = Some (JNum 2000)"
    by (simp add: stored_field_update [OF room getHexId_not_proto])
  have "?s2 \<noteq> ?s1"
  proof
    assume "?s2 = ?s1"
    then have "stored_field ?s2 ''AB12CD'' (getHexId 0 0) ''lastUpdated''
                 = stored_field ?s1 ''AB12CD'' (getHexId 0 0) ''lastUpdated''"
      by (rule arg_cong)
    then show False
      unfolding one two by simp
  qed
  then show ?thesis
    using one two by blast
qed

text \<open>
  Claim C2, amended. For every room that exists in the store, every cell and every delta (so
  for \<^verbatim>\<open>{color: "#ff0000"}\<close>), applying the delta twice in succession leaves the store as
  applying it once at the time of the second application does: against the first
  application, the stored cell has the same value in every field except \<open>lastUpdated\<close>,
  which holds the later time; the store is the same when the clock has not moved.
\<close>

theorem updateHexState_idempotent_up_to_stamp:
  assumes "rooms s roomCode = Some room"
  shows "snd (updateHexState roomCode (getHexId q r) action t2
                (snd (updateHexState roomCode (getHexId q r) action t1 s)))
           = snd (updateHexState roomCode (getHexId q r) action t2 s)
       \<and> fst (updateHexState roomCode (getHexId q r) action t2
                (snd (updateHexState roomCode (getHexId q r) action t1 s))) = Returns True
       \<and> (\<forall>key. key \<noteq> ''lastUpdated'' \<longrightarrow>
              stored_field (snd (updateHexState roomCode (getHexId q r) action t2
                  (snd (updateHexState roomCode (getHexId q r) action t1 s))))
                roomCode (getHexId q r) key
              = stored_field (snd (updateHexState roomCode (getHexId q r) action t1 s))
                  roomCode (getHexId q r) key)
       \<and> stored_field (snd (updateHexState roomCode (getHexId q r) action t2
              (snd (updateHexState roomCode (getHexId q r) action t1 s))))
            roomCode (getHexId q r) ''lastUpdated'' = Some (JNum (real t2))"
proof -
  let ?h = "getHexId q r"
  let ?s1 = "snd (updateHexState roomCode ?h action t1 s)"
  let ?s2 = "snd (updateHexState roomCode ?h action t2 ?s1)"
  note proto = getHexId_not_proto [of q r]
  have twice: "?s2 = snd (updateHexState roomCode ?h action t2 s)"
    by (rule updateHexState_twice [OF assms proto])
  obtain room1 where "rooms ?s1 roomCode = Some room1"
    using updateHexState_keeps_room [OF assms proto] by blast
  then have ret: "fst (updateHexState roomCode ?h action t2 ?s1) = Returns True"
    using proto by (simp add: updateHexState_own)
  have "stored_field ?s2 roomCode ?h key = stored_field ?s1 roomCode ?h key"
    if "key \<noteq> ''lastUpdated''" for key
    unfolding twice using that by (simp add: stored_field_update [OF assms proto])
  moreover have "stored_field ?s2 roomCode ?h ''lastUpdated'' = Some (JNum (real t2))"
    unfolding twice by (simp add: stored_field_update [OF assms proto])
  ultimately show ?thesis
    using twice ret by blast
qed

text \<open>
  Claim C2 for the delta \<^verbatim>\<open>{color: "#ff0000"}\<close> on the cell \<open>(0, 0)\<close>: applied twice at the same
  time the store is the same as after the first application, and applied again later the
  colour is still the one stored.
\<close>

theorem updateHexState_idempotent_up_to_stamp_witness:
  "rooms \<lparr>rooms = [''AB12CD'' \<mapsto> \<lparr>host = ''u1'', users = [''u1''],
                      hexState = Map.empty, createdAt = 0\<rparr>],
           userRooms = [''u1'' \<mapsto> [''AB12CD'']]\<rparr> ''AB12CD''
     = Some \<lparr>host = ''u1'', users = [''u1''], hexState = Map.empty, createdAt = 0\<rparr>
   \<and> snd (updateHexState ''AB12CD'' (getHexId 0 0) [''color'' \<mapsto> JStr ''#ff0000''] 1000
        (snd (updateHexState ''AB12CD'' (getHexId 0 0) [''color'' \<mapsto> JStr ''#ff0000''] 1000
           \<lparr>rooms = [''AB12CD'' \<mapsto> \<lparr>host = ''u1'', users = [''u1''],
                       hexState = Map.empty, createdAt = 0\<rparr>],
             userRooms = [''u1'' \<mapsto> [''AB12CD'']]\<rparr>)))
     = snd (updateHexState ''AB12CD'' (getHexId 0 0) [''color'' \<mapsto> JStr ''#ff0000''] 1000
           \<lparr>rooms = [''AB12CD'' \<mapsto> \<lparr>host = ''u1'', users = [''u1''],
                       hexState = Map.empty, createdAt = 0\<rparr>],
             userRooms = [''u1'' \<mapsto> [''AB12CD'']]\<rparr>)
   \<and> stored_field
        (snd (updateHexState ''AB12CD'' (getHexId 0 0) [''color'' \<mapsto> JStr ''#ff0000''] 2000
          (snd (updateHexState ''AB12CD'' (getHexId 0 0) [''color'' \<mapsto> JStr ''#ff0000''] 1000
             \<lparr>rooms = [''AB12CD'' \<mapsto> \<lparr>host = ''u1'', users = [''u1''],
                         hexState = Map.empty, createdAt = 0\<rparr>],
               userRooms = [''u1'' \<mapsto> [''AB12CD'']]\<rparr>))))
        ''AB12CD'' (getHexId 0 0) ''color'' = Some (JStr ''#ff0000'')"
proof -
  let ?d = "[''color'' \<mapsto> JStr ''#ff0000'']"
  let ?room = "\<lparr>host = ''u1'', users = [''u1''], hexState = Map.empty, createdAt = 0\<rparr>"
  let ?s = "\<lparr>rooms = [''AB12CD'' \<mapsto> ?room], userRooms = [''u1'' \<mapsto> [''AB12CD'']]\<rparr>"
  let ?s1 = "snd (updateHexState ''AB12CD'' (getHexId 0 0) ?d 1000 ?s)"
  have room: "rooms ?s ''AB12CD'' = Some ?room"
    by simp
  have same: "snd (updateHexState ''AB12CD'' (getHexId 0 0) ?d 1000 ?s1) = ?s1"
    using updateHexState_idempotent_up_to_stamp [OF room, of 0 0 ?d 1000 1000] by blast
  have "\<forall>key. key \<noteq> ''lastUpdated'' \<longrightarrow>
          stored_field (snd (updateHexState ''AB12CD'' (getHexId 0 0) ?d 2000 ?s1))
            ''AB12CD'' (getHexId 0 0) key
          = stored_field ?s1 ''AB12CD'' (getHexId 0 0) key"
    using updateHexState_idempotent_up_to_stamp [OF room, of 0 0 ?d 2000 1000] by blast
  then have "stored_field (snd (updateHexState ''AB12CD'' (getHexId 0 0) ?d 2000 ?s1))
          ''AB12CD'' (getHexId 0 0) ''color''
        = stored_field ?s1 ''AB12CD'' (getHexId 0 0) ''color''"
    by simp
  also have "\<dots> = Some (JStr ''#ff0000'')"
    by (simp add: stored_field_update [OF room getHexId_not_proto])
  finally show ?thesis
    using room same by blast
qed

subsection \<open>Joining\<close>

text \<open>
  When the table has no room under the code and the code is not an inherited name,
  \<^verbatim>\<open>joinRoom\<close> reports the failure and changes nothing.
\<close>

lemma joinRoom_unknown:
  assumes "rooms s roomCode = None" "roomCode \<notin> set Object_prototype_keys"
  shows "joinRoom roomCode userId s = (Returns (Failure ''Room not found''), s)"
  using assms by (simp add: joinRoom_def js_get_def)

text \<open>
  Claim C3. The claim is that \<^verbatim>\<open>joinRoom\<close> returns \<^verbatim>\<open>{success: false, error: "Room not found"}\<close>
  for every code that is not in the store. The guard \<^verbatim>\<open>if (!this.rooms[roomCode])\<close> lets
  the names inherited from \<^verbatim>\<open>Object.prototype\<close> through: for the code \<^verbatim>\<open>"constructor"\<close> on a
  store with no rooms, \<^verbatim>\<open>this.rooms[roomCode].users\<close> is \<^verbatim>\<open>undefined\<close> and the call throws
  a \<^verbatim>\<open>TypeError\<close> instead of returning, where the code \<^verbatim>\<open>"ZZZZZZ"\<close> gets the failure. The
  store is unchanged in both cases.
\<close>

theorem joinRoom_inherited_name:
  "rooms new_RoomManager ''constructor'' = None
   \<and> joinRoom ''constructor'' ''u1'' new_RoomManager = (Throws TypeError, new_RoomManager)
   \<and> joinRoom ''ZZZZZZ'' ''u1'' new_RoomManager
       = (Returns (Failure ''Room not found''), new_RoomManager)"
  by (simp add: joinRoom_def js_get_def new_RoomManager_def Object_prototype_keys_def)

subsection \<open>Membership\<close>

lemma js_get_Own: "js_get obj key = Own v \<longleftrightarrow> obj key = Some v"
  by (simp add: js_get_def split: option.splits)

lemma js_get_Undefined:
  "js_get obj key = Undefined \<longleftrightarrow> obj key = None \<and> key \<notin> set Object_prototype_keys"
  by (simp add: js_get_def split: option.splits)

lemma js_get_Inherited:
  "js_get obj key = Inherited \<longleftrightarrow> obj key = None \<and> key \<in> set Object_prototype_keys"
  by (simp add: js_get_def split: option.splits)

lemma associate_Returns:
  assumes "associate userId roomCode s = (None, s')"
  shows "rooms s' = rooms s"
    and "memberships s' = (memberships s)(userId := insert roomCode (memberships s userId))"
proof -
  have "rooms s' = rooms s
      \<and> memberships s' = (memberships s)(userId := insert roomCode (memberships s userId))"
  proof (cases "js_get (userRooms s) userId")
    case Undefined
    then have "userRooms s userId = None"
      by (simp add: js_get_Undefined)
    then show ?thesis
      using assms Undefined by (auto simp: associate_def memberships_def fun_eq_iff)
  next
    case (Own codes)
    then have "userRooms s userId = Some codes"
      by (simp add: js_get_Own)
    then show ?thesis
      using assms Own by (auto simp: associate_def memberships_def fun_eq_iff)
  next
    case Inherited
    then show ?thesis
      using assms by (simp add: associate_def)
  qed
  then show "rooms s' = rooms s"
    and "memberships s' = (memberships s)(userId := insert roomCode (memberships s userId))"
    by simp_all
qed

lemma consistent_init: "consistent new_RoomManager"
  by (simp add: consistent_def new_RoomManager_def members_def memberships_def)

lemma consistent_create:
  assumes c: "consistent s" and fresh: "rooms s (generateRoomCode math_random) = None"
    and r: "createRoom math_random now userId s = (Returns roomCode, s')"
  shows "consistent s'"
proof -
  let ?c = "generateRoomCode math_random"
  let ?s1 = "s\<lparr>rooms := (rooms s)(?c \<mapsto>
                 \<lparr>host = userId, users = [userId], hexState = Map.empty, createdAt = now\<rparr>)\<rparr>"
  have a: "associate userId ?c ?s1 = (None, s')"
    using r by (auto simp: createRoom_def Let_def split: prod.splits option.splits)
  have rooms': "rooms s' = (rooms s)(?c \<mapsto>
                 \<lparr>host = userId, users = [userId], hexState = Map.empty, createdAt = now\<rparr>)"
    using associate_Returns(1) [OF a] by simp
  have m1: "memberships ?s1 = memberships s"
    by (simp add: memberships_def fun_eq_iff)
  have idx: "memberships s' = (memberships s)(userId := insert ?c (memberships s userId))"
    using associate_Returns(2) [OF a] m1 by simp
  have none: "?c \<notin> memberships s u" for u
    using c fresh unfolding consistent_def members_def by (metis empty_iff option.simps(4))
  have mem: "members s' code = (if code = ?c then {userId} else members s code)" for code
    by (simp add: members_def rooms')
  show ?thesis
    unfolding consistent_def
  proof (intro conjI allI impI)
    fix code room
    assume "rooms s' code = Some room"
    then show "users room \<noteq> []"
      using c unfolding consistent_def rooms' by (auto split: if_splits)
  next
    fix u code
    show "u \<in> members s' code \<longleftrightarrow> code \<in> memberships s' u"
      using c none [of u] unfolding consistent_def mem idx by auto
  qed
qed

lemma consistent_join:
  assumes c: "consistent s" and r: "joinRoom roomCode userId s = (Returns result, s')"
  shows "consistent s'"
proof (cases "js_get (rooms s) roomCode")
  case Undefined
  then show ?thesis using r c by (simp add: joinRoom_def)
next
  case Inherited
  then show ?thesis using r by (simp add: joinRoom_def)
next
  case (Own room)
  let ?s1 = "s\<lparr>rooms := (rooms s)(roomCode \<mapsto> room\<lparr>users := users room @ [userId]\<rparr>)\<rparr>"
  have own: "rooms s roomCode = Some room"
    using Own by (simp add: js_get_Own)
  have a: "associate userId roomCode ?s1 = (None, s')"
    using r Own by (auto simp: joinRoom_def Let_def split: prod.splits option.splits)
  have rooms': "rooms s' = (rooms s)(roomCode \<mapsto> room\<lparr>users := users room @ [userId]\<rparr>)"
    using associate_Returns(1) [OF a] by simp
  have m1: "memberships ?s1 = memberships s"
    by (simp add: memberships_def fun_eq_iff)
  have idx: "memberships s' = (memberships s)(userId := insert roomCode (memberships s userId))"
    using associate_Returns(2) [OF a] m1 by simp
  have mem: "members s' code = (if code = roomCode then insert userId (members s code)
                                else members s code)" for code
    using own by (simp add: members_def rooms')
  show ?thesis
    unfolding consistent_def
  proof (intro conjI allI impI)
    fix code room'
    assume "rooms s' code = Some room'"
    then show "users room' \<noteq> []"
      using c unfolding consistent_def rooms' by (auto split: if_splits)
  next
    fix u code
    show "u \<in> members s' code \<longleftrightarrow> code \<in> memberships s' u"
      using c unfolding consistent_def mem idx by auto
  qed
qed

lemma consistent_update:
  assumes c: "consistent s" and r: "updateHexState roomCode hexId action now s = (Returns ok, s')"
  shows "consistent s'"
proof (cases "js_get (rooms s) roomCode")
  case Undefined
  then show ?thesis using r c by (simp add: updateHexState_def)
next
  case Inherited
  then show ?thesis using r by (simp add: updateHexState_def)
next
  case (Own room)
  have own: "rooms s roomCode = Some room"
    using Own by (simp add: js_get_Own)
  obtain cell where s': "s' = s\<lparr>rooms := (rooms s)(roomCode \<mapsto>
                        room\<lparr>hexState := (hexState room)(hexId \<mapsto> cell)\<rparr>)\<rparr>"
    using r Own by (auto simp: updateHexState_def Let_def split: if_splits)
  have "members s' = members s"
    using own by (auto simp: members_def s' fun_eq_iff)
  moreover have "memberships s' = memberships s"
    by (simp add: memberships_def s' fun_eq_iff)
  moreover have "users room' \<noteq> []" if "rooms s' code = Some room'" for code room'
    using that c own unfolding consistent_def s' by (auto split: if_splits)
  ultimately show ?thesis
    using c unfolding consistent_def by auto
qed


lemma leave_room_idem: "leave_room u (leave_room u entry) = leave_room u entry"
  by (simp add: leave_room_def split: option.splits)

lemma leave_loop_Returns:
  "leave_loop u cs left s = (Returns l, s') \<Longrightarrow>
   userRooms s' = userRooms s
   \<and> rooms s' = (\<lambda>c. if c \<in> set cs then leave_room u (rooms s c) else rooms s c)"
proof (induction cs arbitrary: left s)
  case Nil
  then show ?case by simp
next
  case (Cons roomCode rest)
  show ?case
  proof (cases "js_get (rooms s) roomCode")
    case Undefined
    then have none: "rooms s roomCode = None"
      by (simp add: js_get_Undefined)
    have "leave_loop u rest left s = (Returns l, s')"
      using Cons.prems Undefined by simp
    then have "userRooms s' = userRooms s
      \<and> rooms s' = (\<lambda>c. if c \<in> set rest then leave_room u (rooms s c) else rooms s c)"
      by (rule Cons.IH)
    then show ?thesis
      using none by (auto simp: fun_eq_iff leave_room_def)
  next
    case Inherited
    then show ?thesis
      using Cons.prems by simp
  next
    case (Own room)
    then have own: "rooms s roomCode = Some room"
      by (simp add: js_get_Own)
    let ?remaining = "filter (\<lambda>id. id \<noteq> u) (users room)"
    let ?s1 = "s\<lparr>rooms := (rooms s)(roomCode \<mapsto> room\<lparr>users := ?remaining\<rparr>)\<rparr>"
    let ?s2 = "if length ?remaining = 0 then ?s1\<lparr>rooms := (rooms ?s1)(roomCode := None)\<rparr> else ?s1"
    have s2: "rooms ?s2 = (rooms s)(roomCode := leave_room u (rooms s roomCode))"
      "userRooms ?s2 = userRooms s"
      using own by (auto simp: leave_room_def fun_eq_iff)
    have "leave_loop u rest (left @ [roomCode]) ?s2 = (Returns l, s')"
      using Cons.prems Own by (simp add: Let_def)
    then have "userRooms s' = userRooms ?s2
      \<and> rooms s' = (\<lambda>c. if c \<in> set rest then leave_room u (rooms ?s2 c) else rooms ?s2 c)"
      by (rule Cons.IH)
    then show ?thesis
      unfolding s2 by (auto simp: fun_eq_iff leave_room_idem)
  qed
qed

lemma members_leave_room:
  "(case leave_room u entry of None \<Rightarrow> {} | Some room \<Rightarrow> set (users room))
     = (case entry of None \<Rightarrow> {} | Some room \<Rightarrow> set (users room)) - {u}"
  by (auto simp: leave_room_def filter_empty_conv split: option.splits)

lemma consistent_leave:
  assumes c: "consistent s" and r: "removeUserFromRooms userId s = (Returns roomsLeft, s')"
  shows "consistent s'"
proof (cases "js_get (userRooms s) userId")
  case Undefined
  then show ?thesis using r c by (simp add: removeUserFromRooms_def)
next
  case Inherited
  then show ?thesis using r by (simp add: removeUserFromRooms_def)
next
  case (Own codes)
  then have idx: "userRooms s userId = Some codes"
    by (simp add: js_get_Own)
  obtain s1 where loop: "leave_loop userId codes [] s = (Returns roomsLeft, s1)"
    and s': "s' = s1\<lparr>userRooms := (userRooms s1)(userId := None)\<rparr>"
    using r Own by (auto simp: removeUserFromRooms_def split: prod.splits completion.splits)
  have s1: "userRooms s1 = userRooms s"
    "rooms s1 = (\<lambda>c. if c \<in> set codes then leave_room userId (rooms s c) else rooms s c)"
    using leave_loop_Returns [OF loop] by simp_all
  have codes: "memberships s userId = set codes"
    using idx by (simp add: memberships_def)
  have mem: "members s' code = members s code - {userId}" for code
  proof (cases "code \<in> set codes")
    case True
    then show ?thesis
      unfolding members_def s' using s1(2) members_leave_room [of userId "rooms s code"] by simp
  next
    case False
    then have "userId \<notin> members s code"
      using c codes unfolding consistent_def by simp
    then show ?thesis
      unfolding members_def s' using s1(2) False by simp
  qed
  have ms: "memberships s' = (memberships s)(userId := {})"
    unfolding s' by (simp add: memberships_def s1(1) fun_eq_iff)
  show ?thesis
    unfolding consistent_def
  proof (intro conjI allI impI)
    fix code room
    assume "rooms s' code = Some room"
    then have "rooms s1 code = Some room"
      by (simp add: s')
    then show "users room \<noteq> []"
      using c unfolding consistent_def s1(2)
      by (auto simp: leave_room_def split: if_splits option.splits)
  next
    fix u code
    show "u \<in> members s' code \<longleftrightarrow> code \<in> memberships s' u"
      using c unfolding consistent_def mem ms by auto
  qed
qed

text \<open>
  On every trace of calls that return normally and in which no \<^verbatim>\<open>createRoom\<close> mints a code
  that is in the table, the store is consistent: no room is empty, and a user is a member of
  a room exactly when the user's index entry lists the room.
\<close>

theorem collision_free_consistent: "collision_free s \<Longrightarrow> consistent s"
proof (induction rule: collision_free.induct)
  case init
  show ?case by (rule consistent_init)
next
  case (create s math_random now userId roomCode s')
  then show ?case by (blast intro: consistent_create)
next
  case (join s roomCode userId result s')
  then show ?case by (blast intro: consistent_join)
next
  case (update s roomCode hexId action now ok s')
  then show ?case by (blast intro: consistent_update)
next
  case (leave s userId roomsLeft s')
  then show ?case by (blast intro: consistent_leave)
qed

lemma generateRoomCode_example:
  "generateRoomCode (1435 / 2048) = ''P833DI''"
  "generateRoomCode (770409758721 / 1099511627776) = ''P833DI''"
  by code_simp+

text \<open>
  Claim C4. The claim is that in every reachable store a user is in a room's member list
  exactly when the room's code is in the user's entry of the index. \<^verbatim>\<open>createRoom\<close> does not
  look whether the code it mints is in use: when \<^verbatim>\<open>Math.random()\<close> returns two numbers with
  the same first six digits in base 36 (here \<open>1435/2048\<close> and \<open>770409758721/2^40\<close>), the
  second room replaces the first under the same code. After \<^verbatim>\<open>createRoom("u1")\<close> and
  \<^verbatim>\<open>createRoom("u2")\<close> the room's only member is \<open>u2\<close>, while the index of \<open>u1\<close> still lists
  the code.
\<close>

theorem createRoom_collision:
  "fst (createRoom (1435 / 2048) 1000 ''u1'' new_RoomManager) = Returns ''P833DI''
   \<and> createRoom (770409758721 / 1099511627776) 2000 ''u2''
       (snd (createRoom (1435 / 2048) 1000 ''u1'' new_RoomManager))
     = (Returns ''P833DI'',
        \<lparr>rooms = [''P833DI'' \<mapsto> \<lparr>host = ''u2'', users = [''u2''],
                                 hexState = Map.empty, createdAt = 2000\<rparr>],
          userRooms = [''u1'' \<mapsto> [''P833DI''], ''u2'' \<mapsto> [''P833DI'']]\<rparr>)
   \<and> ''P833DI'' \<in> memberships
         (snd (createRoom (770409758721 / 1099511627776) 2000 ''u2''
            (snd (createRoom (1435 / 2048) 1000 ''u1'' new_RoomManager)))) ''u1''
   \<and> ''u1'' \<notin> members
         (snd (createRoom (770409758721 / 1099511627776) 2000 ''u2''
            (snd (createRoom (1435 / 2048) 1000 ''u1'' new_RoomManager)))) ''P833DI''"
proof -
  have first: "createRoom (1435 / 2048) 1000 ''u1'' new_RoomManager
      = (Returns ''P833DI'',
         \<lparr>rooms = [''P833DI'' \<mapsto> \<lparr>host = ''u1'', users = [''u1''],
                                  hexState = Map.empty, createdAt = 1000\<rparr>],
           userRooms = [''u1'' \<mapsto> [''P833DI'']]\<rparr>)"
    by (simp add: createRoom_def generateRoomCode_example associate_def js_get_def
          new_RoomManager_def Object_prototype_keys_def Let_def)
  have second: "createRoom (770409758721 / 1099511627776) 2000 ''u2''
       (snd (createRoom (1435 / 2048) 1000 ''u1'' new_RoomManager))
     = (Returns ''P833DI'',
        \<lparr>rooms = [''P833DI'' \<mapsto> \<lparr>host = ''u2'', users = [''u2''],
                                 hexState = Map.empty, createdAt = 2000\<rparr>],
          userRooms = [''u1'' \<mapsto> [''P833DI''], ''u2'' \<mapsto> [''P833DI'']]\<rparr>)"
    unfolding first
    by (simp add: createRoom_def generateRoomCode_example associate_def js_get_def
          Object_prototype_keys_def Let_def)
  show ?thesis
    unfolding second by (simp add: first members_def memberships_def)
qed


section \<open>Properties of the client mirror\<close>

text \<open>
  A delta with a truthy \<open>voxelModel\<close> is applied and the call returns; every other delta
  applied to a cell of the grid ends in the read of \<^verbatim>\<open>heightChanged\<close>.
\<close>

lemma HexGrid_updateHexState_with_model:
  assumes "hexMeshes grid hexId = Some hex" "is_truthy (state ''voxelModel'')"
  shows "fst (HexGrid_updateHexState hexId state grid) = Returns ()"
  using assms
  by (auto simp: HexGrid_updateHexState_def js_get_def Let_def is_truthy_def split: option.splits)

lemma HexGrid_updateHexState_without_model:
  assumes "hexMeshes grid hexId = Some hex" "\<not> is_truthy (state ''voxelModel'')"
  shows "fst (HexGrid_updateHexState hexId state grid) = Throws ReferenceError"
  using assms
  by (auto simp: HexGrid_updateHexState_def js_get_def Let_def is_truthy_def split: option.splits)

text \<open>
  Claim C9. The claim is that the client's per-cell update completes without an error for
  every subset of the fields \<open>color\<close>, \<open>height\<close>, \<open>voxelModel\<close>. On a cell of the grid, the
  delta \<^verbatim>\<open>{color: "#ff0000"}\<close> is applied (the mesh takes the colour) and then the call
  throws a \<^verbatim>\<open>ReferenceError\<close>; so do \<^verbatim>\<open>{height: 2}\<close> and the empty delta.
\<close>

theorem HexGrid_updateHexState_throws:
  "HexGrid_updateHexState ''0,0'' [''color'' \<mapsto> JStr ''#ff0000'']
     \<lparr>hexMeshes = [''0,0'' \<mapsto> \<lparr>customColor = None, height = None, topColor = JStr ''#3498db''\<rparr>],
       voxelModels = Map.empty, voxelModelManager = True\<rparr>
   = (Throws ReferenceError,
      \<lparr>hexMeshes = [''0,0'' \<mapsto> \<lparr>customColor = Some (JStr ''#ff0000''), height = None,
                                 topColor = JStr ''#ff0000''\<rparr>],
        voxelModels = Map.empty, voxelModelManager = True\<rparr>)
   \<and> fst (HexGrid_updateHexState ''0,0'' [''height'' \<mapsto> JNum 2]
     \<lparr>hexMeshes = [''0,0'' \<mapsto> \<lparr>customColor = None, height = None, topColor = JStr ''#3498db''\<rparr>],
       voxelModels = Map.empty, voxelModelManager = True\<rparr>) = Throws ReferenceError
   \<and> fst (HexGrid_updateHexState ''0,0'' Map.empty
     \<lparr>hexMeshes = [''0,0'' \<mapsto> \<lparr>customColor = None, height = None, topColor = JStr ''#3498db''\<rparr>],
       voxelModels = Map.empty, voxelModelManager = True\<rparr>) = Throws ReferenceError"
  by (simp add: HexGrid_updateHexState_def js_get_def extrudeHex_def Let_def)

end
